theory Spec2Isabelle
  imports Main "HOL-Library.Word" "HOL-Library.Sublist"
begin

unbundle bit_operations_syntax

section \<open>Data model of \<open>BaseConnection\<close>\<close>

text \<open>
  The embedding follows \<^verbatim>\<open>aio_pika/pika/adapters/base_connection.py\<close>. The object's
  attributes are the fields of a record that every method takes and returns; the calls it
  makes on its collaborators (socket, IOLoop, protocol layer) are appended to a trace, the
  log records to a second list. What the operating system answers to a call on a socket
  (connect, handshake, send, recv, shutdown) is data carried by the socket object: a script
  that the call consumes. A script that runs out makes the model return \<open>None\<close>.
\<close>

type_synonym bytes = "8 word list"

text \<open>Python's unbounded integers, with the epoll constants of the class.\<close>

definition READ :: int where "READ = 0x0001"
definition WRITE :: int where "WRITE = 0x0004"
definition ERROR :: int where "ERROR = 0x0008"

text \<open>The \<^verbatim>\<open>errno\<close> module's values on Linux, and the two codes of the \<^verbatim>\<open>ssl\<close> module.\<close>

definition EINTR :: int where "EINTR = 4"
definition EBADF :: int where "EBADF = 9"
definition EAGAIN :: int where "EAGAIN = 11"
definition EWOULDBLOCK :: int where "EWOULDBLOCK = 11"
definition EPIPE :: int where "EPIPE = 32"
definition ECONNABORTED :: int where "ECONNABORTED = 103"

definition SSL_ERROR_WANT_READ :: int where "SSL_ERROR_WANT_READ = 2"
definition SSL_ERROR_WANT_WRITE :: int where "SSL_ERROR_WANT_WRITE = 3"

definition ERRORS_TO_ABORT :: "int list" where
  "ERRORS_TO_ABORT = [EBADF, ECONNABORTED, EPIPE]"

definition ERRORS_TO_IGNORE :: "int list" where
  "ERRORS_TO_IGNORE = [EWOULDBLOCK, EAGAIN, EINTR]"

definition DO_HANDSHAKE :: bool where "DO_HANDSHAKE = True"
definition WARN_ABOUT_IOLOOP :: bool where "WARN_ABOUT_IOLOOP = False"

text \<open>
  The exceptions a socket call raises are all of the \<^verbatim>\<open>OSError\<close> family:
  \<^verbatim>\<open>OSError\<close> itself (its \<^verbatim>\<open>errno\<close>, which may be \<^verbatim>\<open>None\<close>, and its \<^verbatim>\<open>str()\<close>),
  \<^verbatim>\<open>socket.timeout\<close> (a subclass, with no errno) and \<^verbatim>\<open>ssl.SSLError\<close> (a subclass
  whose \<^verbatim>\<open>args[0]\<close> is the SSL code, which is also its errno).
\<close>

datatype oserror =
    OSError "int option" string
  | socket_timeout string
  | SSLError int string

fun errno :: "oserror \<Rightarrow> int option" where
  "errno (OSError n _) = n"
| "errno (socket_timeout _) = None"
| "errno (SSLError c _) = Some c"

fun str :: "oserror \<Rightarrow> string" where
  "str (OSError _ m) = m"
| "str (socket_timeout m) = m"
| "str (SSLError _ m) = m"

fun args0 :: "oserror \<Rightarrow> int option" where
  "args0 (OSError n _) = n"
| "args0 (socket_timeout _) = None"
| "args0 (SSLError c _) = Some c"

fun is_socket_timeout :: "oserror \<Rightarrow> bool" where
  "is_socket_timeout (socket_timeout _) = True"
| "is_socket_timeout _ = False"

fun is_SSLError :: "oserror \<Rightarrow> bool" where
  "is_SSLError (SSLError _ _) = True"
| "is_SSLError _ = False"

text \<open>
  Everything that a method of the class can raise or let through; \<open>OtherError\<close> stands for
  an exception of any other class, by its name.
\<close>

datatype exc =
    OSErr oserror
  | IncompatibleProtocolError
  | ProbableAuthenticationError
  | ProbableAccessDeniedError
  | TypeError
  | AttributeError
  | OtherError string

datatype 'a result = Return 'a | Raise exc

text \<open>
  The value handed to \<^verbatim>\<open>_handle_error\<close> (\<^verbatim>\<open>:param int|object error_value\<close>):
  \<^verbatim>\<open>None\<close> (the default of \<^verbatim>\<open>_handle_events\<close>), an integer, or an exception object.
\<close>

datatype error_value = NoneV | IntV int | ErrV oserror

text \<open>
  Modelled from the spec: the protocol phase. The class \<^verbatim>\<open>connection.Connection\<close>, which
  declares \<^verbatim>\<open>connection_state\<close>, the \<^verbatim>\<open>CONNECTION_*\<close> constants and the properties
  \<^verbatim>\<open>is_open\<close>, \<^verbatim>\<open>is_closed\<close> and \<^verbatim>\<open>is_closing\<close>, is not among the sources; the
  spec's data model gives the phases as the enumeration below, and its resolver table
  names the three that raise.
\<close>

datatype connection_phase =
    Resolving | Connecting | ProtocolHandshake | Authenticating | Tuning
  | Open | Closing | Closed

definition CONNECTION_PROTOCOL :: connection_phase where
  "CONNECTION_PROTOCOL = ProtocolHandshake"
definition CONNECTION_START :: connection_phase where
  "CONNECTION_START = Authenticating"
definition CONNECTION_TUNE :: connection_phase where
  "CONNECTION_TUNE = Tuning"

datatype loglevel = DEBUG | INFO | WARNING | ERROR_LEVEL | CRITICAL

text \<open>What a call on the socket answers.\<close>

datatype connect_outcome = Connected | ConnectRaises oserror
datatype handshake_outcome = HandshakeDone | HandshakeRaises oserror
datatype send_outcome = Sent nat | SendRaises oserror
datatype recv_outcome = Received bytes | RecvRaises oserror

record sock =
  fileno :: nat
  blocking :: bool
  connect_answer :: connect_outcome
  handshake_script :: "handshake_outcome list"
  send_script :: "send_outcome list"
  recv_script :: "recv_outcome list"
  shutdown_answer :: "oserror option"

text \<open>An address candidate of \<^verbatim>\<open>getaddrinfo\<close>: the family and the socket address.\<close>

record candidate =
  family :: nat
  host :: string
  port :: int

datatype event =
    RemoveHeartbeat
  | SockShutdown nat
  | SockClose nat
  | IoloopStop
  | ConnectionInitState
  | OnConnectionClosed
  | OnDataAvailable bytes
  | UpdateHandler nat int
  | SockSend nat bytes
  | SockRecv nat
  | SockCreate nat nat
  | SockSetNoDelay nat
  | SockSetTimeout nat
  | WrapSocket nat
  | SockConnect nat string int
  | SockDoHandshake nat
  | SockSetBlocking nat bool

datatype getaddrinfo_outcome = Addresses "candidate list" | GetaddrinfoRaises oserror

record conn =
  params_ssl :: bool
  ioloop :: bool
  stop_ioloop_on_close :: bool
  socket :: "sock option"
  base_events :: int
  event_state :: int
  outbound_buffer :: "bytes list"
  connection_state :: connection_phase
  trace :: "event list"
  logs :: "(loglevel \<times> string) list"
  \<comment> \<open>the environment: the answers of \<^verbatim>\<open>getaddrinfo\<close>, and the sockets that
      \<^verbatim>\<open>socket.socket\<close> will create, in creation order\<close>
  getaddrinfo_script :: "getaddrinfo_outcome list"
  new_sockets :: "sock list"

definition emit :: "event \<Rightarrow> conn \<Rightarrow> conn" where
  "emit e s = s\<lparr>trace := trace s @ [e]\<rparr>"

definition logmsg :: "loglevel \<Rightarrow> string \<Rightarrow> conn \<Rightarrow> conn" where
  "logmsg lvl msg s = s\<lparr>logs := logs s @ [(lvl, msg)]\<rparr>"

text \<open>Python's truth value of \<^verbatim>\<open>events & BIT\<close>.\<close>

definition has_bit :: "int \<Rightarrow> int \<Rightarrow> bool" where
  "has_bit m b = (m AND b \<noteq> 0)"

section \<open>The protocol layer's part\<close>

text \<open>
  Modelled from the spec: the three properties of the missing superclass that
  \<^verbatim>\<open>_check_state_on_disconnect\<close> reads, on the spec's phases.
\<close>

definition is_open :: "conn \<Rightarrow> bool" where
  "is_open s = (connection_state s = Open)"

definition is_closed :: "conn \<Rightarrow> bool" where
  "is_closed s = (connection_state s = Closed)"

definition is_closing :: "conn \<Rightarrow> bool" where
  "is_closing s = (connection_state s = Closing)"

text \<open>
  Modelled from the spec: the superclass's \<^verbatim>\<open>_init_connection_state\<close>,
  \<^verbatim>\<open>_remove_heartbeat\<close>, \<^verbatim>\<open>_on_connection_closed\<close> and \<^verbatim>\<open>_on_data_available\<close> are not
  among the sources. The spec says of the reset that pending writes are discarded by it;
  the phase is owned by the protocol layer and no other effect of the four is described,
  so each is a call recorded in the trace that does not raise.
\<close>

definition Connection_init_connection_state :: "conn \<Rightarrow> conn" where
  "Connection_init_connection_state s = emit ConnectionInitState (s\<lparr>outbound_buffer := []\<rparr>)"

definition remove_heartbeat :: "conn \<Rightarrow> conn" where
  "remove_heartbeat s = emit RemoveHeartbeat s"

definition on_connection_closed :: "conn \<Rightarrow> conn" where
  "on_connection_closed s = emit OnConnectionClosed s"

definition on_data_available :: "bytes \<Rightarrow> conn \<Rightarrow> conn" where
  "on_data_available d s = emit (OnDataAvailable d) s"

section \<open>Disconnect sequencing\<close>

text \<open>\<^verbatim>\<open>_check_state_on_disconnect\<close>\<close>

definition check_state_on_disconnect :: "conn \<Rightarrow> unit result \<times> conn" where
  "check_state_on_disconnect s =
     (if connection_state s = CONNECTION_PROTOCOL then
        (Raise IncompatibleProtocolError,
         logmsg ERROR_LEVEL ''Incompatible Protocol Versions'' s)
      else if connection_state s = CONNECTION_START then
        (Raise ProbableAuthenticationError,
         logmsg ERROR_LEVEL ''Socket closed while authenticating indicating a probable authentication error'' s)
      else if connection_state s = CONNECTION_TUNE then
        (Raise ProbableAccessDeniedError,
         logmsg ERROR_LEVEL ''Socket closed while tuning the connection indicating a probable permission error when accessing a virtual host'' s)
      else if is_open s then
        (Return (), logmsg WARNING ''Socket closed when connection was open'' s)
      else if \<not> is_closed s \<and> \<not> is_closing s then
        (Return (), logmsg WARNING ''Unknown state on disconnect: %i'' s)
      else (Return (), s))"

text \<open>
  \<^verbatim>\<open>_cleanup_socket\<close>: an \<^verbatim>\<open>OSError\<close> of \<^verbatim>\<open>shutdown\<close> is caught and passed over.
\<close>

definition cleanup_socket :: "conn \<Rightarrow> conn" where
  "cleanup_socket s =
     (case socket s of
        None \<Rightarrow> s
      | Some k \<Rightarrow>
          let s1 = emit (SockShutdown (fileno k)) s;
              s2 = (case shutdown_answer k of Some e \<Rightarrow> s1 | None \<Rightarrow> s1);
              s3 = emit (SockClose (fileno k)) s2
          in s3\<lparr>socket := None\<rparr>)"

text \<open>\<^verbatim>\<open>_handle_ioloop_stop\<close>\<close>

definition handle_ioloop_stop :: "conn \<Rightarrow> conn" where
  "handle_ioloop_stop s =
     (if stop_ioloop_on_close s \<and> ioloop s then emit IoloopStop s
      else if WARN_ABOUT_IOLOOP then
        logmsg WARNING ''Connection is closed but not stopping IOLoop'' s
      else s)"

text \<open>\<^verbatim>\<open>_init_connection_state\<close>\<close>

definition init_connection_state :: "conn \<Rightarrow> conn" where
  "init_connection_state s =
     (let s1 = Connection_init_connection_state s;
          s2 = s1\<lparr>base_events := READ OR ERROR\<rparr>;
          s3 = s2\<lparr>event_state := base_events s2\<rparr>
      in s3\<lparr>socket := None\<rparr>)"

text \<open>
  \<^verbatim>\<open>_adapter_disconnect\<close>: the \<^verbatim>\<open>finally\<close> block runs whether the check raised or not,
  and the exception, if any, goes on to the caller after it.
\<close>

definition adapter_disconnect :: "conn \<Rightarrow> unit result \<times> conn" where
  "adapter_disconnect s =
     (let s1 = remove_heartbeat s;
          s2 = cleanup_socket s1;
          (r, s3) = check_state_on_disconnect s2;
          s4 = handle_ioloop_stop s3;
          s5 = init_connection_state s4
      in (r, s5))"

text \<open>\<^verbatim>\<open>_handle_disconnect\<close>\<close>

definition handle_disconnect :: "conn \<Rightarrow> unit result \<times> conn" where
  "handle_disconnect s =
     (case adapter_disconnect s of
        (Raise e, s1) \<Rightarrow> (Raise e, s1)
      | (Return _, s1) \<Rightarrow> (Return (), on_connection_closed s1))"

section \<open>Error handling\<close>

text \<open>Python's \<^verbatim>\<open>str()\<close> of an integer, and of the value handed to the error handler.\<close>

definition digit_char :: "int \<Rightarrow> char" where
  "digit_char d =
     (if d = 0 then CHR ''0'' else if d = 1 then CHR ''1'' else if d = 2 then CHR ''2''
      else if d = 3 then CHR ''3'' else if d = 4 then CHR ''4'' else if d = 5 then CHR ''5''
      else if d = 6 then CHR ''6'' else if d = 7 then CHR ''7'' else if d = 8 then CHR ''8''
      else CHR ''9'')"

function str_int :: "int \<Rightarrow> string" where
  "str_int i =
     (if i < 0 then CHR ''-'' # str_int (- i)
      else if i < 10 then [digit_char i]
      else str_int (i div 10) @ [digit_char (i mod 10)])"
  by pat_completeness auto
termination
  by (relation "measure (\<lambda>i. if i < 0 then Suc (nat (- i)) else nat i)") auto

declare str_int.simps [simp del]

fun str_value :: "error_value \<Rightarrow> string" where
  "str_value NoneV = ''None''"
| "str_value (IntV i) = str_int i"
| "str_value (ErrV e) = str e"

text \<open>
  \<^verbatim>\<open>_get_error_code\<close>: a false value (\<^verbatim>\<open>None\<close>, \<^verbatim>\<open>0\<close>) has no code; an object with an
  \<^verbatim>\<open>errno\<close> attribute gives it; anything else is subscripted, which an integer does not
  support.
\<close>

fun get_error_code :: "error_value \<Rightarrow> int option result" where
  "get_error_code NoneV = Return None"
| "get_error_code (IntV i) = (if i = 0 then Return None else Raise TypeError)"
| "get_error_code (ErrV e) = Return (errno e)"

text \<open>\<^verbatim>\<open>_handle_error\<close>\<close>

fun isinstance_SSLError :: "error_value \<Rightarrow> bool" where
  "isinstance_SSLError (ErrV e) = is_SSLError e"
| "isinstance_SSLError _ = False"

fun value_args0 :: "error_value \<Rightarrow> int option" where
  "value_args0 (ErrV e) = args0 e"
| "value_args0 _ = None"

definition handle_error :: "error_value \<Rightarrow> conn \<Rightarrow> unit result \<times> conn" where
  "handle_error error_value s =
     (if sublist ''timed out'' (str_value error_value) then
        (Raise (OSErr (socket_timeout [])), s)
      else
        case get_error_code error_value of
          Raise x \<Rightarrow> (Raise x, s)
        | Return None \<Rightarrow>
            (Return (), logmsg CRITICAL ''Tried to handle an error where no error existed'' s)
        | Return (Some error_code) \<Rightarrow>
            if error_code = 0 then
              (Return (), logmsg CRITICAL ''Tried to handle an error where no error existed'' s)
            else if error_code \<in> set ERRORS_TO_IGNORE then
              (Return (), logmsg DEBUG ''Ignoring %s'' s)
            else if error_code \<in> set ERRORS_TO_ABORT then
              handle_disconnect (logmsg ERROR_LEVEL ''Fatal Socket Error: %r'' s)
            else if params_ssl s \<and> isinstance_SSLError error_value then
              (if value_args0 error_value = Some SSL_ERROR_WANT_READ then
                 handle_disconnect (s\<lparr>event_state := READ\<rparr>)
               else if value_args0 error_value = Some SSL_ERROR_WANT_WRITE then
                 handle_disconnect (s\<lparr>event_state := WRITE\<rparr>)
               else handle_disconnect (logmsg ERROR_LEVEL ''SSL Socket error: %r'' s))
            else handle_disconnect (logmsg ERROR_LEVEL ''Socket Error: %s'' s))"

text \<open>\<^verbatim>\<open>_handle_timeout\<close> does nothing.\<close>

definition handle_timeout :: "conn \<Rightarrow> conn" where
  "handle_timeout s = s"

section \<open>Event mask\<close>

text \<open>
  \<^verbatim>\<open>_manage_event_state\<close>. The call \<^verbatim>\<open>self.ioloop.update_handler(self.socket.fileno(), ...)\<close>
  comes after the assignment to \<^verbatim>\<open>event_state\<close>, and needs both objects.
\<close>

definition update_handler :: "conn \<Rightarrow> unit result \<times> conn" where
  "update_handler s =
     (case socket s of
        None \<Rightarrow> (Raise AttributeError, s)
      | Some k \<Rightarrow>
          if ioloop s then (Return (), emit (UpdateHandler (fileno k) (event_state s)) s)
          else (Raise AttributeError, s))"

definition manage_event_state :: "conn \<Rightarrow> unit result \<times> conn" where
  "manage_event_state s =
     (if outbound_buffer s \<noteq> [] then
        (if \<not> has_bit (event_state s) WRITE then
           update_handler (s\<lparr>event_state := event_state s OR WRITE\<rparr>)
         else (Return (), s))
      else if has_bit (event_state s) WRITE then
        update_handler (s\<lparr>event_state := base_events s\<rparr>)
      else (Return (), s))"

section \<open>Write path\<close>

text \<open>
  The inner loop of \<^verbatim>\<open>_handle_write\<close>: \<^verbatim>\<open>socket.send\<close> is called again while it raises an
  \<^verbatim>\<open>OSError\<close> whose errno is \<^verbatim>\<open>EINTR\<close>; any other exception leaves the loop. Every call
  is recorded.
\<close>

fun send_retry ::
  "nat \<Rightarrow> bytes \<Rightarrow> send_outcome list \<Rightarrow> event list
     \<Rightarrow> (nat result \<times> send_outcome list \<times> event list) option" where
  "send_retry fd frame [] tr = None"
| "send_retry fd frame (Sent n # rest) tr = Some (Return n, rest, tr @ [SockSend fd frame])"
| "send_retry fd frame (SendRaises e # rest) tr =
     (if errno e = Some EINTR then send_retry fd frame rest (tr @ [SockSend fd frame])
      else Some (Raise (OSErr e), rest, tr @ [SockSend fd frame]))"

definition sock_send :: "bytes \<Rightarrow> conn \<Rightarrow> (nat result \<times> conn) option" where
  "sock_send frame s =
     (case socket s of
        None \<Rightarrow> Some (Raise AttributeError, s)
      | Some k \<Rightarrow>
          (case send_retry (fileno k) frame (send_script k) (trace s) of
             None \<Rightarrow> None
           | Some (r, rest, tr) \<Rightarrow>
               Some (r, s\<lparr>socket := Some (k\<lparr>send_script := rest\<rparr>), trace := tr\<rparr>)))"

text \<open>
  How the \<^verbatim>\<open>try\<close> block of \<^verbatim>\<open>_handle_write\<close> is left: by the end of the \<^verbatim>\<open>while\<close> loop
  (or its \<^verbatim>\<open>break\<close>), or by an exception, with the frame that was popped last.
\<close>

datatype write_exit = Finished int | Failed exc bytes int

text \<open>
  The \<^verbatim>\<open>while self.outbound_buffer\<close> loop: pop the front frame, send it, add to the
  count; a short write is logged, puts the unsent suffix back at the front and breaks.
\<close>

function write_loop :: "int \<Rightarrow> conn \<Rightarrow> (write_exit \<times> conn) option" where
  "write_loop bytes_written s =
     (case outbound_buffer s of
        [] \<Rightarrow> Some (Finished bytes_written, s)
      | frame # rest \<Rightarrow>
          (case sock_send frame (s\<lparr>outbound_buffer := rest\<rparr>) of
             None \<Rightarrow> None
           | Some (Raise x, s1) \<Rightarrow> Some (Failed x frame bytes_written, s1)
           | Some (Return bw, s1) \<Rightarrow>
               if bw < length frame then
                 Some (Finished (bytes_written + int bw),
                       (logmsg DEBUG ''Partial write, requeing remaining data'' s1)
                         \<lparr>outbound_buffer := drop bw frame # outbound_buffer s1\<rparr>)
               else write_loop (bytes_written + int bw) s1))"
  by pat_completeness auto
termination
  by (relation "measure (\<lambda>(n, s). length (outbound_buffer s))")
     (auto simp: sock_send_def split: option.splits)

declare write_loop.simps [simp del]

text \<open>
  A method that ends in \<^verbatim>\<open>return self._handle_error(...)\<close> or
  \<^verbatim>\<open>return self._handle_disconnect()\<close> returns \<^verbatim>\<open>None\<close>, or raises what the call raised.
\<close>

definition none_of :: "unit result \<times> conn \<Rightarrow> int option result \<times> conn" where
  "none_of p = (case p of (Raise x, s) \<Rightarrow> (Raise x, s) | (Return _, s) \<Rightarrow> (Return None, s))"

text \<open>
  \<^verbatim>\<open>_handle_write\<close>: the \<^verbatim>\<open>except\<close> clauses, in the source's order. The value returned is
  the byte count, or \<^verbatim>\<open>None\<close> where the method returns what \<^verbatim>\<open>_handle_error\<close> returned.
\<close>

definition handle_write :: "conn \<Rightarrow> (int option result \<times> conn) option" where
  "handle_write s =
     (case write_loop 0 s of
        None \<Rightarrow> None
      | Some (Finished n, s1) \<Rightarrow> Some (Return (Some n), s1)
      | Some (Failed (OSErr e) frame n, s1) \<Rightarrow>
          if is_socket_timeout e then
            Some (Return (Some n),
                  handle_timeout
                    (logmsg DEBUG ''socket timeout, requeuing frame'' s1
                       \<lparr>outbound_buffer := frame # outbound_buffer s1\<rparr>))
          else if errno e = Some EAGAIN \<or> errno e = Some EWOULDBLOCK then
            Some (Return (Some n),
                  logmsg DEBUG ''Would block, requeuing frame'' s1
                    \<lparr>outbound_buffer := frame # outbound_buffer s1\<rparr>)
          else
            Some (none_of (handle_error (ErrV e) s1))
      | Some (Failed x frame n, s1) \<Rightarrow> Some (Raise x, s1))"


section \<open>Read path\<close>

text \<open>The retry loop of \<^verbatim>\<open>_handle_read\<close> around \<^verbatim>\<open>socket.recv\<close> (\<^verbatim>\<open>read\<close> under TLS).\<close>

fun recv_retry ::
  "nat \<Rightarrow> recv_outcome list \<Rightarrow> event list
     \<Rightarrow> (bytes result \<times> recv_outcome list \<times> event list) option" where
  "recv_retry fd [] tr = None"
| "recv_retry fd (Received d # rest) tr = Some (Return d, rest, tr @ [SockRecv fd])"
| "recv_retry fd (RecvRaises e # rest) tr =
     (if errno e = Some EINTR then recv_retry fd rest (tr @ [SockRecv fd])
      else Some (Raise (OSErr e), rest, tr @ [SockRecv fd]))"

definition sock_recv :: "conn \<Rightarrow> (bytes result \<times> conn) option" where
  "sock_recv s =
     (case socket s of
        None \<Rightarrow> Some (Raise AttributeError, s)
      | Some k \<Rightarrow>
          (case recv_retry (fileno k) (recv_script k) (trace s) of
             None \<Rightarrow> None
           | Some (r, rest, tr) \<Rightarrow>
               Some (r, s\<lparr>socket := Some (k\<lparr>recv_script := rest\<rparr>), trace := tr\<rparr>)))"

text \<open>
  \<^verbatim>\<open>_handle_read\<close>. The value returned is a byte count, or \<^verbatim>\<open>None\<close> where the method
  returns what \<^verbatim>\<open>_handle_error\<close> or \<^verbatim>\<open>_handle_disconnect\<close> returned.
\<close>

definition handle_read :: "conn \<Rightarrow> (int option result \<times> conn) option" where
  "handle_read s =
     (case sock_recv s of
        None \<Rightarrow> None
      | Some (Raise (OSErr e), s1) \<Rightarrow>
          if is_socket_timeout e then Some (Return (Some 0), handle_timeout s1)
          else if is_SSLError e then
            (if args0 e = Some SSL_ERROR_WANT_READ then Some (Return (Some 0), s1)
             else Some (none_of (handle_error (ErrV e) s1)))
          else if errno e = Some EAGAIN \<or> errno e = Some EWOULDBLOCK then
            Some (Return (Some 0), s1)
          else Some (none_of (handle_error (ErrV e) s1))
      | Some (Raise x, s1) \<Rightarrow> Some (Raise x, s1)
      | Some (Return data, s1) \<Rightarrow>
          if data = [] then
            Some (none_of (handle_disconnect
                    (logmsg ERROR_LEVEL ''Read empty data, calling disconnect'' s1)))
          else Some (Return (Some (int (length data))), on_data_available data s1))"

section \<open>Event dispatch\<close>

text \<open>
  \<^verbatim>\<open>_handle_events\<close>: four tests in a row, each on the socket as the one before left it;
  an exception of one ends the call.
\<close>

definition events_write :: "int \<Rightarrow> conn \<Rightarrow> (unit result \<times> conn) option" where
  "events_write events s =
     (if socket s \<noteq> None \<and> has_bit events WRITE then
        (case handle_write s of
           None \<Rightarrow> None
         | Some (Raise x, s1) \<Rightarrow> Some (Raise x, s1)
         | Some (Return _, s1) \<Rightarrow> Some (manage_event_state s1))
      else Some (Return (), s))"

definition events_read :: "int \<Rightarrow> bool \<Rightarrow> conn \<Rightarrow> (unit result \<times> conn) option" where
  "events_read events write_only s =
     (if socket s \<noteq> None \<and> \<not> write_only \<and> has_bit events READ then
        (case handle_read s of
           None \<Rightarrow> None
         | Some (Raise x, s1) \<Rightarrow> Some (Raise x, s1)
         | Some (Return _, s1) \<Rightarrow> Some (Return (), s1))
      else Some (Return (), s))"

definition events_bad_libc :: "int \<Rightarrow> bool \<Rightarrow> conn \<Rightarrow> unit result \<times> conn" where
  "events_bad_libc events write_only s =
     (if socket s \<noteq> None \<and> write_only \<and> has_bit events READ \<and> has_bit events ERROR then
        handle_disconnect
          (logmsg ERROR_LEVEL ''BAD libc:  Write-Only but Read+Error. Assume socket disconnected.'' s)
      else (Return (), s))"

definition events_error :: "int \<Rightarrow> error_value \<Rightarrow> conn \<Rightarrow> unit result \<times> conn" where
  "events_error events error s =
     (if socket s \<noteq> None \<and> has_bit events ERROR then
        handle_error error (logmsg ERROR_LEVEL ''Error event %r, %r'' s)
      else (Return (), s))"

definition handle_events ::
  "nat \<Rightarrow> int \<Rightarrow> error_value \<Rightarrow> bool \<Rightarrow> conn \<Rightarrow> (unit result \<times> conn) option" where
  "handle_events fd events error write_only s =
     (if socket s = None then
        Some (Return (), logmsg ERROR_LEVEL ''Received events on closed socket: %r'' s)
      else
        case events_write events s of
          None \<Rightarrow> None
        | Some (Raise x, s1) \<Rightarrow> Some (Raise x, s1)
        | Some (Return _, s1) \<Rightarrow>
            (case events_read events write_only s1 of
               None \<Rightarrow> None
             | Some (Raise x, s2) \<Rightarrow> Some (Raise x, s2)
             | Some (Return _, s2) \<Rightarrow>
                 (case events_bad_libc events write_only s2 of
                    (Raise x, s3) \<Rightarrow> Some (Raise x, s3)
                  | (Return _, s3) \<Rightarrow> Some (events_error events error s3))))"

section \<open>Dialling\<close>

text \<open>
  \<^verbatim>\<open>_do_ssl_handshake\<close>: the handshake step is repeated while it raises an
  \<^verbatim>\<open>SSLError\<close> that asks for input or output; the hint is stored in \<^verbatim>\<open>event_state\<close>
  and \<^verbatim>\<open>_manage_event_state\<close> is called before the next step.
\<close>

function handshake_loop :: "conn \<Rightarrow> (unit result \<times> conn) option" where
  "handshake_loop s =
     (case socket s of
        None \<Rightarrow> Some (Raise AttributeError, s)
      | Some k \<Rightarrow>
          (case handshake_script k of
             [] \<Rightarrow> None
           | a # rest \<Rightarrow>
               let s1 = emit (SockDoHandshake (fileno k))
                          (s\<lparr>socket := Some (k\<lparr>handshake_script := rest\<rparr>)\<rparr>)
               in (case a of
                     HandshakeDone \<Rightarrow> Some (Return (), s1)
                   | HandshakeRaises e \<Rightarrow>
                       if is_SSLError e then
                         (if args0 e = Some SSL_ERROR_WANT_READ then
                            (case manage_event_state (s1\<lparr>event_state := READ\<rparr>) of
                               (Raise x, s2) \<Rightarrow> Some (Raise x, s2)
                             | (Return _, s2) \<Rightarrow> handshake_loop s2)
                          else if args0 e = Some SSL_ERROR_WANT_WRITE then
                            (case manage_event_state (s1\<lparr>event_state := WRITE\<rparr>) of
                               (Raise x, s2) \<Rightarrow> Some (Raise x, s2)
                             | (Return _, s2) \<Rightarrow> handshake_loop s2)
                          else Some (Raise (OSErr e), s1))
                       else Some (Raise (OSErr e), s1))))"
  by pat_completeness auto
termination
  by (relation "measure (\<lambda>s. case socket s of None \<Rightarrow> 0 | Some k \<Rightarrow> length (handshake_script k))")
     (auto simp: manage_event_state_def update_handler_def emit_def split: if_splits option.splits)

declare handshake_loop.simps [simp del]

definition do_ssl_handshake :: "conn \<Rightarrow> (unit result \<times> conn) option" where
  "do_ssl_handshake s = (if \<not> DO_HANDSHAKE then Some (Return (), s) else handshake_loop s)"

text \<open>
  The error texts of \<^verbatim>\<open>_create_and_connect_to_socket\<close>, from the address
  \<^verbatim>\<open>sock_addr_tuple[4]\<close>.
\<close>

definition connect_timeout_text :: "candidate \<Rightarrow> string" where
  "connect_timeout_text a =
     ''Connection to '' @ host a @ '':'' @ str_int (port a) @ '' failed: timeout''"

definition connect_failed_text :: "candidate \<Rightarrow> oserror \<Rightarrow> string" where
  "connect_failed_text a e =
     ''Connection to '' @ host a @ '':'' @ str_int (port a) @ '' failed: '' @ str e"

definition ssl_failed_text :: "candidate \<Rightarrow> oserror \<Rightarrow> string" where
  "ssl_failed_text a e =
     ''SSL connection to '' @ host a @ '':'' @ str_int (port a) @ '' failed: '' @ str e"

text \<open>
  \<^verbatim>\<open>_create_and_connect_to_socket\<close>. The new socket is the next one of the environment;
  it is created, given its options and a timeout (which leaves it blocking) and wrapped
  under TLS, none of which raises here. The result is the error text, or \<^verbatim>\<open>None\<close>.
\<close>

definition create_and_connect_to_socket ::
  "candidate \<Rightarrow> conn \<Rightarrow> (string option result \<times> conn) option" where
  "create_and_connect_to_socket a s =
     (case new_sockets s of
        [] \<Rightarrow> None
      | k0 # ks \<Rightarrow>
          let k = k0\<lparr>blocking := True\<rparr>;
              fd = fileno k;
              s1 = s\<lparr>socket := Some k, new_sockets := ks,
                     trace := trace s @ [SockCreate fd (family a), SockSetNoDelay fd,
                                         SockSetTimeout fd]\<rparr>;
              s2 = (if params_ssl s1 then emit (WrapSocket fd) s1 else s1);
              s3 = logmsg INFO ''Connecting to %s:%s%s'' s2;
              s4 = emit (SockConnect fd (host a) (port a)) s3
          in (case connect_answer k of
                ConnectRaises e \<Rightarrow>
                  if is_socket_timeout e then
                    Some (Return (Some (connect_timeout_text a)),
                          logmsg ERROR_LEVEL (connect_timeout_text a) s4)
                  else
                    Some (Return (Some (connect_failed_text a e)),
                          logmsg WARNING (connect_failed_text a e) s4)
              | Connected \<Rightarrow>
                  if params_ssl s4 \<and> DO_HANDSHAKE then
                    (case do_ssl_handshake s4 of
                       None \<Rightarrow> None
                     | Some (Raise (OSErr e), s5) \<Rightarrow>
                         if is_SSLError e then
                           Some (Return (Some (ssl_failed_text a e)),
                                 logmsg ERROR_LEVEL (ssl_failed_text a e) s5)
                         else Some (Raise (OSErr e), s5)
                     | Some (Raise x, s5) \<Rightarrow> Some (Raise x, s5)
                     | Some (Return _, s5) \<Rightarrow> Some (Return None, s5))
                  else Some (Return None, s4)))"

text \<open>What \<^verbatim>\<open>_adapter_connect\<close> returns on failure: a text, or the resolver's exception.\<close>

datatype connect_error = ErrorText string | ErrorExc oserror

text \<open>The resolution loop of \<^verbatim>\<open>_adapter_connect\<close>, retried on \<^verbatim>\<open>EINTR\<close>.\<close>

fun getaddrinfo_retry ::
  "getaddrinfo_outcome list \<Rightarrow> (getaddrinfo_outcome \<times> getaddrinfo_outcome list) option" where
  "getaddrinfo_retry [] = None"
| "getaddrinfo_retry (Addresses as # rest) = Some (Addresses as, rest)"
| "getaddrinfo_retry (GetaddrinfoRaises e # rest) =
     (if errno e = Some EINTR then getaddrinfo_retry rest
      else Some (GetaddrinfoRaises e, rest))"

text \<open>
  The \<^verbatim>\<open>for sock_addr in addresses\<close> loop, with the value of \<^verbatim>\<open>error\<close> so far. Python's
  \<^verbatim>\<open>not error\<close> holds of \<^verbatim>\<open>None\<close> and of the empty text.
\<close>

definition set_nonblocking :: "conn \<Rightarrow> unit result \<times> conn" where
  "set_nonblocking s =
     (case socket s of
        None \<Rightarrow> (Raise AttributeError, s)
      | Some k \<Rightarrow>
          (Return (), emit (SockSetBlocking (fileno k) False)
                        (s\<lparr>socket := Some (k\<lparr>blocking := False\<rparr>)\<rparr>)))"

definition connected :: "conn \<Rightarrow> (connect_error option result \<times> conn) option" where
  "connected s =
     (case set_nonblocking s of
        (Raise x, s1) \<Rightarrow> Some (Raise x, s1)
      | (Return _, s1) \<Rightarrow> Some (Return None, s1))"

fun connect_loop ::
  "connect_error \<Rightarrow> candidate list \<Rightarrow> conn \<Rightarrow> (connect_error option result \<times> conn) option" where
  "connect_loop error [] s = Some (Return (Some error), s)"
| "connect_loop error (sock_addr # addresses) s =
     (case create_and_connect_to_socket sock_addr s of
        None \<Rightarrow> None
      | Some (Raise x, s1) \<Rightarrow> Some (Raise x, s1)
      | Some (Return None, s1) \<Rightarrow> connected s1
      | Some (Return (Some text), s1) \<Rightarrow>
          if text = [] then connected s1
          else connect_loop (ErrorText text) addresses (cleanup_socket s1))"

text \<open>\<^verbatim>\<open>_adapter_connect\<close>\<close>

definition adapter_connect :: "conn \<Rightarrow> (connect_error option result \<times> conn) option" where
  "adapter_connect s =
     (case getaddrinfo_retry (getaddrinfo_script s) of
        None \<Rightarrow> None
      | Some (GetaddrinfoRaises e, rest) \<Rightarrow>
          Some (Return (Some (ErrorExc e)),
                logmsg CRITICAL ''Could not get addresses to use: %s (%s)''
                  (s\<lparr>getaddrinfo_script := rest\<rparr>))
      | Some (Addresses addresses, rest) \<Rightarrow>
          connect_loop (ErrorText ''No socket addresses available'') addresses
            (s\<lparr>getaddrinfo_script := rest\<rparr>))"

section \<open>The handlers with collaborators that raise\<close>

text \<open>
  Modelled from the spec: the protocol layer's callbacks and the reactor are not among the
  sources, and the definitions above take each of their calls, and \<^verbatim>\<open>socket.close\<close>, as
  returning. The source calls them outside any \<^verbatim>\<open>try\<close> that would catch what they raise
  (\<^verbatim>\<open>_remove_heartbeat\<close> and \<^verbatim>\<open>_init_connection_state\<close> in \<^verbatim>\<open>_adapter_disconnect\<close>,
  \<^verbatim>\<open>socket.close\<close> in \<^verbatim>\<open>_cleanup_socket\<close>, \<^verbatim>\<open>ioloop.stop\<close> in \<^verbatim>\<open>_handle_ioloop_stop\<close>,
  \<^verbatim>\<open>_on_connection_closed\<close> in \<^verbatim>\<open>_handle_disconnect\<close>, \<^verbatim>\<open>_on_data_available\<close> in
  \<^verbatim>\<open>_handle_read\<close>, \<^verbatim>\<open>ioloop.update_handler\<close> in \<^verbatim>\<open>_manage_event_state\<close>). The handlers
  are given here a second time, statement for statement as above, with the answer of each of
  these calls read from \<open>env\<close>: \<open>None\<close> when the call returns, the exception when it
  raises. A call that raises is recorded in the trace like one that returns, and has no
  other effect; the exception goes to the caller through the same \<^verbatim>\<open>try\<close> blocks.
\<close>

datatype collaborator =
    HeartbeatRemoval | SocketClose | ReactorStop | ProtocolReset
  | ClosedCallback | DataCallback | ReactorUpdate

type_synonym answers = "collaborator \<Rightarrow> exc option"

text \<open>\<^verbatim>\<open>_remove_heartbeat\<close>, of the protocol layer.\<close>

definition remove_heartbeat_with :: "answers \<Rightarrow> conn \<Rightarrow> unit result \<times> conn" where
  "remove_heartbeat_with env s =
     (case env HeartbeatRemoval of
        Some x \<Rightarrow> (Raise x, remove_heartbeat s)
      | None \<Rightarrow> (Return (), remove_heartbeat s))"

text \<open>
  \<^verbatim>\<open>_cleanup_socket\<close>: only the \<^verbatim>\<open>OSError\<close> of \<^verbatim>\<open>shutdown\<close> is caught; \<^verbatim>\<open>close\<close> is called
  outside the \<^verbatim>\<open>try\<close>, and the handle is dropped after it returned.
\<close>

definition cleanup_socket_with :: "answers \<Rightarrow> conn \<Rightarrow> unit result \<times> conn" where
  "cleanup_socket_with env s =
     (case socket s of
        None \<Rightarrow> (Return (), s)
      | Some k \<Rightarrow>
          let s1 = emit (SockShutdown (fileno k)) s;
              s2 = (case shutdown_answer k of Some e \<Rightarrow> s1 | None \<Rightarrow> s1)
          in (case env SocketClose of
                Some x \<Rightarrow> (Raise x, emit (SockClose (fileno k)) s2)
              | None \<Rightarrow> (Return (), (emit (SockClose (fileno k)) s2)\<lparr>socket := None\<rparr>)))"

text \<open>\<^verbatim>\<open>_handle_ioloop_stop\<close>\<close>

definition handle_ioloop_stop_with :: "answers \<Rightarrow> conn \<Rightarrow> unit result \<times> conn" where
  "handle_ioloop_stop_with env s =
     (if stop_ioloop_on_close s \<and> ioloop s then
        (case env ReactorStop of
           Some x \<Rightarrow> (Raise x, emit IoloopStop s)
         | None \<Rightarrow> (Return (), emit IoloopStop s))
      else if WARN_ABOUT_IOLOOP then
        (Return (), logmsg WARNING ''Connection is closed but not stopping IOLoop'' s)
      else (Return (), s))"

text \<open>
  \<^verbatim>\<open>_init_connection_state\<close>: the superclass's method is called first; the fields of this
  class are reset after it returned.
\<close>

definition init_connection_state_with :: "answers \<Rightarrow> conn \<Rightarrow> unit result \<times> conn" where
  "init_connection_state_with env s =
     (case env ProtocolReset of
        Some x \<Rightarrow> (Raise x, emit ConnectionInitState s)
      | None \<Rightarrow> (Return (), init_connection_state s))"

text \<open>
  \<^verbatim>\<open>_adapter_disconnect\<close>: the \<^verbatim>\<open>try\<close> block ends at the first call that raises; the
  \<^verbatim>\<open>finally\<close> block runs after it in either case, and an exception raised there replaces the
  one of the \<^verbatim>\<open>try\<close> block.
\<close>

definition adapter_disconnect_try_with :: "answers \<Rightarrow> conn \<Rightarrow> unit result \<times> conn" where
  "adapter_disconnect_try_with env s =
     (case remove_heartbeat_with env s of
        (Raise x, s1) \<Rightarrow> (Raise x, s1)
      | (Return _, s1) \<Rightarrow>
          (case cleanup_socket_with env s1 of
             (Raise x, s2) \<Rightarrow> (Raise x, s2)
           | (Return _, s2) \<Rightarrow> check_state_on_disconnect s2))"

definition adapter_disconnect_finally_with ::
  "answers \<Rightarrow> unit result \<Rightarrow> conn \<Rightarrow> unit result \<times> conn" where
  "adapter_disconnect_finally_with env r s3 =
     (case handle_ioloop_stop_with env s3 of
        (Raise x, s4) \<Rightarrow> (Raise x, s4)
      | (Return _, s4) \<Rightarrow>
          (case init_connection_state_with env s4 of
             (Raise x, s5) \<Rightarrow> (Raise x, s5)
           | (Return _, s5) \<Rightarrow> (r, s5)))"

definition adapter_disconnect_with :: "answers \<Rightarrow> conn \<Rightarrow> unit result \<times> conn" where
  "adapter_disconnect_with env s =
     (let (r, s3) = adapter_disconnect_try_with env s
      in adapter_disconnect_finally_with env r s3)"

text \<open>\<^verbatim>\<open>_handle_disconnect\<close>\<close>

definition handle_disconnect_with :: "answers \<Rightarrow> conn \<Rightarrow> unit result \<times> conn" where
  "handle_disconnect_with env s =
     (case adapter_disconnect_with env s of
        (Raise e, s1) \<Rightarrow> (Raise e, s1)
      | (Return _, s1) \<Rightarrow>
          (case env ClosedCallback of
             Some x \<Rightarrow> (Raise x, on_connection_closed s1)
           | None \<Rightarrow> (Return (), on_connection_closed s1)))"

text \<open>\<^verbatim>\<open>_handle_error\<close>\<close>

definition handle_error_with ::
  "answers \<Rightarrow> error_value \<Rightarrow> conn \<Rightarrow> unit result \<times> conn" where
  "handle_error_with env error_value s =
     (if sublist ''timed out'' (str_value error_value) then
        (Raise (OSErr (socket_timeout [])), s)
      else
        case get_error_code error_value of
          Raise x \<Rightarrow> (Raise x, s)
        | Return None \<Rightarrow>
            (Return (), logmsg CRITICAL ''Tried to handle an error where no error existed'' s)
        | Return (Some error_code) \<Rightarrow>
            if error_code = 0 then
              (Return (), logmsg CRITICAL ''Tried to handle an error where no error existed'' s)
            else if error_code \<in> set ERRORS_TO_IGNORE then
              (Return (), logmsg DEBUG ''Ignoring %s'' s)
            else if error_code \<in> set ERRORS_TO_ABORT then
              handle_disconnect_with env (logmsg ERROR_LEVEL ''Fatal Socket Error: %r'' s)
            else if params_ssl s \<and> isinstance_SSLError error_value then
              (if value_args0 error_value = Some SSL_ERROR_WANT_READ then
                 handle_disconnect_with env (s\<lparr>event_state := READ\<rparr>)
               else if value_args0 error_value = Some SSL_ERROR_WANT_WRITE then
                 handle_disconnect_with env (s\<lparr>event_state := WRITE\<rparr>)
               else handle_disconnect_with env (logmsg ERROR_LEVEL ''SSL Socket error: %r'' s))
            else handle_disconnect_with env (logmsg ERROR_LEVEL ''Socket Error: %s'' s))"

text \<open>\<^verbatim>\<open>_manage_event_state\<close> and the reactor's \<^verbatim>\<open>update_handler\<close>.\<close>

definition update_handler_with :: "answers \<Rightarrow> conn \<Rightarrow> unit result \<times> conn" where
  "update_handler_with env s =
     (case socket s of
        None \<Rightarrow> (Raise AttributeError, s)
      | Some k \<Rightarrow>
          if ioloop s then
            (case env ReactorUpdate of
               Some x \<Rightarrow> (Raise x, emit (UpdateHandler (fileno k) (event_state s)) s)
             | None \<Rightarrow> (Return (), emit (UpdateHandler (fileno k) (event_state s)) s))
          else (Raise AttributeError, s))"

definition manage_event_state_with :: "answers \<Rightarrow> conn \<Rightarrow> unit result \<times> conn" where
  "manage_event_state_with env s =
     (if outbound_buffer s \<noteq> [] then
        (if \<not> has_bit (event_state s) WRITE then
           update_handler_with env (s\<lparr>event_state := event_state s OR WRITE\<rparr>)
         else (Return (), s))
      else if has_bit (event_state s) WRITE then
        update_handler_with env (s\<lparr>event_state := base_events s\<rparr>)
      else (Return (), s))"

text \<open>\<^verbatim>\<open>_handle_write\<close>, on the same send loop.\<close>

definition handle_write_with :: "answers \<Rightarrow> conn \<Rightarrow> (int option result \<times> conn) option" where
  "handle_write_with env s =
     (case write_loop 0 s of
        None \<Rightarrow> None
      | Some (Finished n, s1) \<Rightarrow> Some (Return (Some n), s1)
      | Some (Failed (OSErr e) frame n, s1) \<Rightarrow>
          if is_socket_timeout e then
            Some (Return (Some n),
                  handle_timeout
                    (logmsg DEBUG ''socket timeout, requeuing frame'' s1
                       \<lparr>outbound_buffer := frame # outbound_buffer s1\<rparr>))
          else if errno e = Some EAGAIN \<or> errno e = Some EWOULDBLOCK then
            Some (Return (Some n),
                  logmsg DEBUG ''Would block, requeuing frame'' s1
                    \<lparr>outbound_buffer := frame # outbound_buffer s1\<rparr>)
          else
            Some (none_of (handle_error_with env (ErrV e) s1))
      | Some (Failed x frame n, s1) \<Rightarrow> Some (Raise x, s1))"

text \<open>\<^verbatim>\<open>_handle_read\<close>\<close>

definition handle_read_with :: "answers \<Rightarrow> conn \<Rightarrow> (int option result \<times> conn) option" where
  "handle_read_with env s =
     (case sock_recv s of
        None \<Rightarrow> None
      | Some (Raise (OSErr e), s1) \<Rightarrow>
          if is_socket_timeout e then Some (Return (Some 0), handle_timeout s1)
          else if is_SSLError e then
            (if args0 e = Some SSL_ERROR_WANT_READ then Some (Return (Some 0), s1)
             else Some (none_of (handle_error_with env (ErrV e) s1)))
          else if errno e = Some EAGAIN \<or> errno e = Some EWOULDBLOCK then
            Some (Return (Some 0), s1)
          else Some (none_of (handle_error_with env (ErrV e) s1))
      | Some (Raise x, s1) \<Rightarrow> Some (Raise x, s1)
      | Some (Return data, s1) \<Rightarrow>
          if data = [] then
            Some (none_of (handle_disconnect_with env
                    (logmsg ERROR_LEVEL ''Read empty data, calling disconnect'' s1)))
          else
            (case env DataCallback of
               Some x \<Rightarrow> Some (Raise x, on_data_available data s1)
             | None \<Rightarrow>
                 Some (Return (Some (int (length data))), on_data_available data s1)))"

text \<open>\<^verbatim>\<open>_handle_events\<close>\<close>

definition events_write_with ::
  "answers \<Rightarrow> int \<Rightarrow> conn \<Rightarrow> (unit result \<times> conn) option" where
  "events_write_with env events s =
     (if socket s \<noteq> None \<and> has_bit events WRITE then
        (case handle_write_with env s of
           None \<Rightarrow> None
         | Some (Raise x, s1) \<Rightarrow> Some (Raise x, s1)
         | Some (Return _, s1) \<Rightarrow> Some (manage_event_state_with env s1))
      else Some (Return (), s))"

definition events_read_with ::
  "answers \<Rightarrow> int \<Rightarrow> bool \<Rightarrow> conn \<Rightarrow> (unit result \<times> conn) option" where
  "events_read_with env events write_only s =
     (if socket s \<noteq> None \<and> \<not> write_only \<and> has_bit events READ then
        (case handle_read_with env s of
           None \<Rightarrow> None
         | Some (Raise x, s1) \<Rightarrow> Some (Raise x, s1)
         | Some (Return _, s1) \<Rightarrow> Some (Return (), s1))
      else Some (Return (), s))"

definition events_bad_libc_with ::
  "answers \<Rightarrow> int \<Rightarrow> bool \<Rightarrow> conn \<Rightarrow> unit result \<times> conn" where
  "events_bad_libc_with env events write_only s =
     (if socket s \<noteq> None \<and> write_only \<and> has_bit events READ \<and> has_bit events ERROR then
        handle_disconnect_with env
          (logmsg ERROR_LEVEL ''BAD libc:  Write-Only but Read+Error. Assume socket disconnected.'' s)
      else (Return (), s))"

definition events_error_with ::
  "answers \<Rightarrow> int \<Rightarrow> error_value \<Rightarrow> conn \<Rightarrow> unit result \<times> conn" where
  "events_error_with env events error s =
     (if socket s \<noteq> None \<and> has_bit events ERROR then
        handle_error_with env error (logmsg ERROR_LEVEL ''Error event %r, %r'' s)
      else (Return (), s))"

definition handle_events_with ::
  "answers \<Rightarrow> nat \<Rightarrow> int \<Rightarrow> error_value \<Rightarrow> bool \<Rightarrow> conn \<Rightarrow> (unit result \<times> conn) option" where
  "handle_events_with env fd events error write_only s =
     (if socket s = None then
        Some (Return (), logmsg ERROR_LEVEL ''Received events on closed socket: %r'' s)
      else
        case events_write_with env events s of
          None \<Rightarrow> None
        | Some (Raise x, s1) \<Rightarrow> Some (Raise x, s1)
        | Some (Return _, s1) \<Rightarrow>
            (case events_read_with env events write_only s1 of
               None \<Rightarrow> None
             | Some (Raise x, s2) \<Rightarrow> Some (Raise x, s2)
             | Some (Return _, s2) \<Rightarrow>
                 (case events_bad_libc_with env events write_only s2 of
                    (Raise x, s3) \<Rightarrow> Some (Raise x, s3)
                  | (Return _, s3) \<Rightarrow> Some (events_error_with env events error s3))))"

text \<open>
  An exception that one of the collaborators answers with, and a result that is such an
  exception.
\<close>

definition raised_by :: "answers \<Rightarrow> exc \<Rightarrow> bool" where
  "raised_by env x = (\<exists>c. env c = Some x)"

definition collaborator_raised :: "answers \<Rightarrow> 'a result \<Rightarrow> bool" where
  "collaborator_raised env r = (case r of Raise x \<Rightarrow> raised_by env x | Return v \<Rightarrow> False)"

definition collaborator_raised_in :: "answers \<Rightarrow> ('a result \<times> conn) option \<Rightarrow> bool" where
  "collaborator_raised_in env p =
     (case p of None \<Rightarrow> False | Some (r, s) \<Rightarrow> collaborator_raised env r)"

section \<open>Example states\<close>

text \<open>
  An open socket whose first \<^verbatim>\<open>send\<close> and first \<^verbatim>\<open>recv\<close> are interrupted, and a
  connection object holding it with three frames queued and \<^verbatim>\<open>WRITE\<close> registered.
\<close>

definition example_sock :: sock where
  "example_sock =
     \<lparr>fileno = 7, blocking = False, connect_answer = Connected, handshake_script = [],
      send_script = [SendRaises (OSError (Some 4) ''[Errno 4] Interrupted system call''), Sent 1, Sent 2],
      recv_script = [RecvRaises (OSError (Some 4) ''[Errno 4] Interrupted system call''), Received []],
      shutdown_answer = Some (OSError (Some 107) ''[Errno 107] Transport endpoint is not connected'')\<rparr>"

definition example_conn :: conn where
  "example_conn =
     \<lparr>params_ssl = False, ioloop = True, stop_ioloop_on_close = True,
      socket = Some example_sock, base_events = 9, event_state = 13,
      outbound_buffer = [[1, 2, 3], [4, 5], [6]],
      connection_state = Open, trace = [], logs = [],
      getaddrinfo_script = [], new_sockets = []\<rparr>"

section \<open>Notions used in the statements\<close>

text \<open>
  The calls of one disconnect sequence, from the state it starts in: the heartbeat timer,
  the socket's shutdown and close if there is a socket, the reactor's stop if configured,
  the protocol layer's reset.
\<close>

definition disconnect_trace :: "conn \<Rightarrow> event list" where
  "disconnect_trace s =
     [RemoveHeartbeat]
     @ (case socket s of None \<Rightarrow> [] | Some k \<Rightarrow> [SockShutdown (fileno k), SockClose (fileno k)])
     @ (if stop_ioloop_on_close s \<and> ioloop s then [IoloopStop] else [])
     @ [ConnectionInitState]"

text \<open>The phases in which \<^verbatim>\<open>_check_state_on_disconnect\<close> raises.\<close>

definition raises_on_disconnect :: "connection_phase \<Rightarrow> bool" where
  "raises_on_disconnect p = (p = ProtocolHandshake \<or> p = Authenticating \<or> p = Tuning)"

text \<open>
  The call of \<^verbatim>\<open>_on_connection_closed\<close> that \<^verbatim>\<open>_handle_disconnect\<close> makes when nothing
  was raised.
\<close>

definition closed_callback :: "connection_phase \<Rightarrow> event list" where
  "closed_callback p = (if raises_on_disconnect p then [] else [OnConnectionClosed])"

text \<open>
  The event-mask invariant. Its first half: the base mask is \<^verbatim>\<open>READ|ERROR\<close>, and while there
  is a socket the registered mask holds \<^verbatim>\<open>READ\<close> and \<^verbatim>\<open>ERROR\<close>. The whole: moreover, while
  there is a socket, the mask holds \<^verbatim>\<open>WRITE\<close> exactly when the queue is not empty.
\<close>

definition mask_base :: "conn \<Rightarrow> bool" where
  "mask_base s =
     (base_events s = READ OR ERROR
      \<and> (socket s \<noteq> None \<longrightarrow> has_bit (event_state s) READ \<and> has_bit (event_state s) ERROR))"

definition mask_invariant :: "conn \<Rightarrow> bool" where
  "mask_invariant s =
     (mask_base s
      \<and> (socket s \<noteq> None \<longrightarrow> (has_bit (event_state s) WRITE \<longleftrightarrow> outbound_buffer s \<noteq> [])))"

text \<open>
  How a handler can leave the object: with the fields of the invariant as they were
  (\<open>kept\<close>), with them as they were but for the socket's scripts (\<open>stepped\<close>) and the
  queue (\<open>io_step\<close>), or reset by a disconnect.
\<close>

definition kept :: "conn \<Rightarrow> conn \<Rightarrow> bool" where
  "kept s s' =
     (socket s' = socket s \<and> outbound_buffer s' = outbound_buffer s
      \<and> event_state s' = event_state s \<and> base_events s' = base_events s
      \<and> ioloop s' = ioloop s)"

definition stepped :: "conn \<Rightarrow> conn \<Rightarrow> bool" where
  "stepped s s' =
     (event_state s' = event_state s \<and> base_events s' = base_events s
      \<and> ioloop s' = ioloop s \<and> (socket s' = None \<longleftrightarrow> socket s = None)
      \<and> outbound_buffer s' = outbound_buffer s)"

definition io_step :: "conn \<Rightarrow> conn \<Rightarrow> bool" where
  "io_step s s' =
     (event_state s' = event_state s \<and> base_events s' = base_events s
      \<and> ioloop s' = ioloop s \<and> (socket s' = None \<longleftrightarrow> socket s = None))"

definition reset :: "conn \<Rightarrow> conn \<Rightarrow> bool" where
  "reset s s' =
     (socket s' = None \<and> outbound_buffer s' = [] \<and> event_state s' = READ OR ERROR
      \<and> base_events s' = READ OR ERROR \<and> ioloop s' = ioloop s)"

text \<open>The exceptions that report the phase, and the one \<^verbatim>\<open>_handle_error\<close> raises itself.\<close>

definition signal :: "exc \<Rightarrow> bool" where
  "signal x =
     (x = IncompatibleProtocolError \<or> x = ProbableAuthenticationError
      \<or> x = ProbableAccessDeniedError)"

definition timeout_raised :: "exc \<Rightarrow> bool" where
  "timeout_raised x = (x = OSErr (socket_timeout []))"



text \<open>
  The dial, from outside: the text for a candidate whose \<^verbatim>\<open>connect\<close> raised, the calls made
  on a new socket up to its \<^verbatim>\<open>connect\<close>, and the calls of a whole failed attempt, which ends
  with the socket's shutdown and close.
\<close>

definition connect_error_text :: "candidate \<Rightarrow> oserror \<Rightarrow> string" where
  "connect_error_text a e =
     (if is_socket_timeout e then connect_timeout_text a else connect_failed_text a e)"

definition attempt_calls :: "bool \<Rightarrow> candidate \<Rightarrow> sock \<Rightarrow> event list" where
  "attempt_calls ssl a k =
     [SockCreate (fileno k) (family a), SockSetNoDelay (fileno k), SockSetTimeout (fileno k)]
     @ (if ssl then [WrapSocket (fileno k)] else [])
     @ [SockConnect (fileno k) (host a) (port a)]"

definition failed_attempt_calls :: "bool \<Rightarrow> candidate \<Rightarrow> sock \<Rightarrow> event list" where
  "failed_attempt_calls ssl a k =
     attempt_calls ssl a k @ [SockShutdown (fileno k), SockClose (fileno k)]"

text \<open>
  Three candidates and the sockets created for them: the first times out, the second is
  refused, the third connects. One resolution is interrupted first.
\<close>

definition address1 :: candidate where
  "address1 = \<lparr>family = 10, host = ''::1'', port = 5672\<rparr>"

definition address2 :: candidate where
  "address2 = \<lparr>family = 2, host = ''10.0.0.1'', port = 5672\<rparr>"

definition address3 :: candidate where
  "address3 = \<lparr>family = 2, host = ''10.0.0.2'', port = 5672\<rparr>"

definition timing_out_sock :: sock where
  "timing_out_sock =
     example_sock\<lparr>fileno := 8, connect_answer := ConnectRaises (socket_timeout ''timed out'')\<rparr>"

definition refused_sock :: sock where
  "refused_sock =
     example_sock\<lparr>fileno := 9,
       connect_answer := ConnectRaises (OSError (Some 111) ''[Errno 111] Connection refused'')\<rparr>"

definition accepting_sock :: sock where
  "accepting_sock = example_sock\<lparr>fileno := 10, blocking := True\<rparr>"

definition dial_conn :: conn where
  "dial_conn =
     example_conn\<lparr>socket := None, event_state := 9, outbound_buffer := [],
       connection_state := Closed,
       getaddrinfo_script :=
         [GetaddrinfoRaises (OSError (Some 4) ''[Errno 4] Interrupted system call''),
          Addresses [address1, address2, address3]],
       new_sockets := [timing_out_sock, refused_sock, accepting_sock]\<rparr>"

definition failing_dial_conn :: conn where
  "failing_dial_conn =
     dial_conn\<lparr>getaddrinfo_script := [Addresses [address1, address2]]\<rparr>"

text \<open>The example connection with a socket that has two bytes to read.\<close>

definition reading_conn :: conn where
  "reading_conn =
     example_conn\<lparr>socket := Some (example_sock\<lparr>recv_script := [Received [1, 2]]\<rparr>)\<rparr>"




text \<open>A data callback that rejects what was read; every other collaborator returns.\<close>

definition frame_error_answers :: answers where
  "frame_error_answers =
     (\<lambda>c. if c = DataCallback then Some (OtherError ''InvalidFrameError'') else None)"

section \<open>The write path requeues a short write at the front\<close>

lemma send_retry_eintr:
  "\<forall>e\<in>set es. errno e = Some EINTR \<Longrightarrow>
   send_retry fd frame (map SendRaises es @ script) tr =
   send_retry fd frame script (tr @ replicate (length es) (SockSend fd frame))"
proof (induction es arbitrary: tr)
  case Nil
  then show ?case by simp
next
  case (Cons e es)
  then show ?case by (simp add: replicate_append_same)
qed

text \<open>
  C1. The queue holds the frame \<open>A\<close> followed by any later frames (\<open>B\<close>, \<open>C\<close>, ...), and
  the send of \<open>A\<close>, after any number of interrupted attempts, transmits only its first
  \<open>n\<close> bytes, \<open>n < len(A)\<close>. Then one call of \<^verbatim>\<open>_handle_write\<close> returns \<open>n\<close> and leaves the
  queue \<open>A[n:]\<close> followed by the same later frames: the suffix is back at the front, nothing
  is lost or duplicated. Only \<open>A\<close> was handed to \<^verbatim>\<open>send\<close>, and the socket's later answers
  are untouched, so no later frame was attempted. One debug record is logged.
\<close>

theorem handle_write_partial_write:
  assumes "socket s = Some k"
    and "outbound_buffer s = A # rest"
    and "\<forall>e\<in>set es. errno e = Some EINTR"
    and "send_script k = map SendRaises es @ Sent n # later"
    and "n < length A"
  shows "handle_write s =
           Some (Return (Some (int n)),
                 s\<lparr>outbound_buffer := drop n A # rest,
                   socket := Some (k\<lparr>send_script := later\<rparr>),
                   trace := trace s @ replicate (Suc (length es)) (SockSend (fileno k) A),
                   logs := logs s @ [(DEBUG, ''Partial write, requeing remaining data'')]\<rparr>)"
  using assms
  by (simp add: handle_write_def write_loop.simps [of 0 s] sock_send_def send_retry_eintr
      replicate_append_same logmsg_def)

theorem handle_write_partial_write_witness:
  "socket example_conn = Some example_sock
   \<and> outbound_buffer example_conn = [1, 2, 3] # [[4, 5], [6]]
   \<and> errno (OSError (Some 4) ''[Errno 4] Interrupted system call'') = Some EINTR
   \<and> send_script example_sock =
        map SendRaises [OSError (Some 4) ''[Errno 4] Interrupted system call''] @ Sent 1 # [Sent 2]
   \<and> 1 < length [1, 2, 3 :: 8 word]
   \<and> handle_write example_conn =
        Some (Return (Some 1),
              example_conn\<lparr>outbound_buffer := [[2, 3], [4, 5], [6]],
                socket := Some (example_sock\<lparr>send_script := [Sent 2]\<rparr>),
                trace := [SockSend 7 [1, 2, 3], SockSend 7 [1, 2, 3]],
                logs := [(DEBUG, ''Partial write, requeing remaining data'')]\<rparr>)"
  using handle_write_partial_write [of example_conn example_sock "[1, 2, 3]" "[[4, 5], [6]]"
      "[OSError (Some 4) ''[Errno 4] Interrupted system call'']" 1 "[Sent 2]"]
  by (simp add: example_conn_def example_sock_def EINTR_def)

section \<open>The phase at disconnect decides the failure\<close>

text \<open>
  C2. \<^verbatim>\<open>_check_state_on_disconnect\<close>, in any state, by the phase: the protocol-handshake
  phase raises \<^verbatim>\<open>IncompatibleProtocolError\<close>, the authenticating phase
  \<^verbatim>\<open>ProbableAuthenticationError\<close>, the tuning phase \<^verbatim>\<open>ProbableAccessDeniedError\<close>; an open
  connection returns with one warning logged; a phase that is none of these and neither
  closing nor closed returns with the unknown-state warning logged; closing and closed
  return with nothing logged. Nothing but the log changes.
\<close>

theorem check_state_on_disconnect_table:
  "check_state_on_disconnect (s\<lparr>connection_state := ProtocolHandshake\<rparr>) =
     (Raise IncompatibleProtocolError,
      logmsg ERROR_LEVEL ''Incompatible Protocol Versions''
        (s\<lparr>connection_state := ProtocolHandshake\<rparr>))
   \<and> check_state_on_disconnect (s\<lparr>connection_state := Authenticating\<rparr>) =
     (Raise ProbableAuthenticationError,
      logmsg ERROR_LEVEL
        ''Socket closed while authenticating indicating a probable authentication error''
        (s\<lparr>connection_state := Authenticating\<rparr>))
   \<and> check_state_on_disconnect (s\<lparr>connection_state := Tuning\<rparr>) =
     (Raise ProbableAccessDeniedError,
      logmsg ERROR_LEVEL
        ''Socket closed while tuning the connection indicating a probable permission error when accessing a virtual host''
        (s\<lparr>connection_state := Tuning\<rparr>))
   \<and> check_state_on_disconnect (s\<lparr>connection_state := Open\<rparr>) =
     (Return (),
      logmsg WARNING ''Socket closed when connection was open'' (s\<lparr>connection_state := Open\<rparr>))
   \<and> check_state_on_disconnect (s\<lparr>connection_state := Resolving\<rparr>) =
     (Return (),
      logmsg WARNING ''Unknown state on disconnect: %i'' (s\<lparr>connection_state := Resolving\<rparr>))
   \<and> check_state_on_disconnect (s\<lparr>connection_state := Connecting\<rparr>) =
     (Return (),
      logmsg WARNING ''Unknown state on disconnect: %i'' (s\<lparr>connection_state := Connecting\<rparr>))
   \<and> check_state_on_disconnect (s\<lparr>connection_state := Closing\<rparr>) =
     (Return (), s\<lparr>connection_state := Closing\<rparr>)
   \<and> check_state_on_disconnect (s\<lparr>connection_state := Closed\<rparr>) =
     (Return (), s\<lparr>connection_state := Closed\<rparr>)"
  by (simp add: check_state_on_disconnect_def CONNECTION_PROTOCOL_def CONNECTION_START_def
      CONNECTION_TUNE_def is_open_def is_closed_def is_closing_def)

section \<open>The disconnect sequence\<close>

lemma check_state_fields [simp]:
  "trace (snd (check_state_on_disconnect s)) = trace s"
  "socket (snd (check_state_on_disconnect s)) = socket s"
  "ioloop (snd (check_state_on_disconnect s)) = ioloop s"
  "stop_ioloop_on_close (snd (check_state_on_disconnect s)) = stop_ioloop_on_close s"
  "connection_state (snd (check_state_on_disconnect s)) = connection_state s"
  "params_ssl (snd (check_state_on_disconnect s)) = params_ssl s"
  by (simp_all add: check_state_on_disconnect_def logmsg_def)

lemma check_state_result:
  "fst (check_state_on_disconnect s) =
     (if connection_state s = ProtocolHandshake then Raise IncompatibleProtocolError
      else if connection_state s = Authenticating then Raise ProbableAuthenticationError
      else if connection_state s = Tuning then Raise ProbableAccessDeniedError
      else Return ())"
  by (simp add: check_state_on_disconnect_def CONNECTION_PROTOCOL_def CONNECTION_START_def
      CONNECTION_TUNE_def)

lemma cleanup_socket_fields [simp]:
  "socket (cleanup_socket s) = None"
  "trace (cleanup_socket s) =
     trace s @ (case socket s of None \<Rightarrow> [] | Some k \<Rightarrow> [SockShutdown (fileno k), SockClose (fileno k)])"
  "connection_state (cleanup_socket s) = connection_state s"
  "ioloop (cleanup_socket s) = ioloop s"
  "stop_ioloop_on_close (cleanup_socket s) = stop_ioloop_on_close s"
  "logs (cleanup_socket s) = logs s"
  "params_ssl (cleanup_socket s) = params_ssl s"
  "new_sockets (cleanup_socket s) = new_sockets s"
  by (simp_all add: cleanup_socket_def emit_def Let_def split: option.splits)

lemma remove_heartbeat_fields [simp]:
  "socket (remove_heartbeat s) = socket s"
  "trace (remove_heartbeat s) = trace s @ [RemoveHeartbeat]"
  "connection_state (remove_heartbeat s) = connection_state s"
  "ioloop (remove_heartbeat s) = ioloop s"
  "stop_ioloop_on_close (remove_heartbeat s) = stop_ioloop_on_close s"
  "logs (remove_heartbeat s) = logs s"
  "params_ssl (remove_heartbeat s) = params_ssl s"
  by (simp_all add: remove_heartbeat_def emit_def)

lemma handle_ioloop_stop_fields [simp]:
  "trace (handle_ioloop_stop s) =
     trace s @ (if stop_ioloop_on_close s \<and> ioloop s then [IoloopStop] else [])"
  "connection_state (handle_ioloop_stop s) = connection_state s"
  "ioloop (handle_ioloop_stop s) = ioloop s"
  "logs (handle_ioloop_stop s) = logs s"
  "params_ssl (handle_ioloop_stop s) = params_ssl s"
  by (simp_all add: handle_ioloop_stop_def emit_def WARN_ABOUT_IOLOOP_def)

lemma init_connection_state_fields [simp]:
  "socket (init_connection_state s) = None"
  "trace (init_connection_state s) = trace s @ [ConnectionInitState]"
  "base_events (init_connection_state s) = READ OR ERROR"
  "event_state (init_connection_state s) = READ OR ERROR"
  "outbound_buffer (init_connection_state s) = []"
  "connection_state (init_connection_state s) = connection_state s"
  "ioloop (init_connection_state s) = ioloop s"
  "logs (init_connection_state s) = logs s"
  "params_ssl (init_connection_state s) = params_ssl s"
  by (simp_all add: init_connection_state_def Connection_init_connection_state_def emit_def
      Let_def)

lemma check_state_logs_cong:
  "logs s1 = logs s2 \<Longrightarrow> connection_state s1 = connection_state s2 \<Longrightarrow>
   logs (snd (check_state_on_disconnect s1)) = logs (snd (check_state_on_disconnect s2))"
  by (simp add: check_state_on_disconnect_def logmsg_def is_open_def is_closed_def
      is_closing_def)

lemma check_state_result_cong:
  "connection_state s1 = connection_state s2 \<Longrightarrow>
   fst (check_state_on_disconnect s1) = fst (check_state_on_disconnect s2)"
  by (simp add: check_state_result)

lemma adapter_disconnect_result:
  "fst (adapter_disconnect s) = fst (check_state_on_disconnect s)"
  by (simp add: adapter_disconnect_def Let_def split_beta check_state_result)

lemma adapter_disconnect_trace:
  "trace (snd (adapter_disconnect s)) = trace s @ disconnect_trace s"
  by (simp add: adapter_disconnect_def Let_def split_beta disconnect_trace_def)

lemma adapter_disconnect_logs:
  "logs (snd (adapter_disconnect s)) = logs (snd (check_state_on_disconnect s))"
proof -
  have "logs (snd (check_state_on_disconnect (cleanup_socket (remove_heartbeat s)))) =
        logs (snd (check_state_on_disconnect s))"
    by (rule check_state_logs_cong) simp_all
  then show ?thesis
    by (simp add: adapter_disconnect_def Let_def split_beta)
qed

lemma adapter_disconnect_fields [simp]:
  "socket (snd (adapter_disconnect s)) = None"
  "base_events (snd (adapter_disconnect s)) = READ OR ERROR"
  "event_state (snd (adapter_disconnect s)) = READ OR ERROR"
  "outbound_buffer (snd (adapter_disconnect s)) = []"
  "connection_state (snd (adapter_disconnect s)) = connection_state s"
  "ioloop (snd (adapter_disconnect s)) = ioloop s"
  "params_ssl (snd (adapter_disconnect s)) = params_ssl s"
  by (simp_all add: adapter_disconnect_def Let_def split_beta)

text \<open>
  C9. \<^verbatim>\<open>_adapter_disconnect\<close>, from any state, whatever \<^verbatim>\<open>shutdown\<close> answers and whether
  or not the phase check raises: the calls made are, in this order, the heartbeat removal,
  the socket's shutdown and close (when there is a socket), the reactor's stop (when
  \<^verbatim>\<open>stop_ioloop_on_close\<close> is set and there is a reactor) and the reset; the result and the
  log records are those of the phase check; afterwards there is no socket, the event mask and
  the base mask are \<^verbatim>\<open>READ|ERROR\<close>, the queue is empty and the phase is as it was.
\<close>

theorem adapter_disconnect_sequence:
  "fst (adapter_disconnect s) = fst (check_state_on_disconnect s)
   \<and> trace (snd (adapter_disconnect s)) =
       trace s @ [RemoveHeartbeat]
       @ (case socket s of None \<Rightarrow> [] | Some k \<Rightarrow> [SockShutdown (fileno k), SockClose (fileno k)])
       @ (if stop_ioloop_on_close s \<and> ioloop s then [IoloopStop] else [])
       @ [ConnectionInitState]
   \<and> logs (snd (adapter_disconnect s)) = logs (snd (check_state_on_disconnect s))
   \<and> socket (snd (adapter_disconnect s)) = None
   \<and> base_events (snd (adapter_disconnect s)) = READ OR ERROR
   \<and> event_state (snd (adapter_disconnect s)) = READ OR ERROR
   \<and> outbound_buffer (snd (adapter_disconnect s)) = []
   \<and> connection_state (snd (adapter_disconnect s)) = connection_state s"
  using adapter_disconnect_result [of s] adapter_disconnect_trace [of s]
    adapter_disconnect_logs [of s]
  by (simp add: disconnect_trace_def)

section \<open>Errors handed to the error handler\<close>

lemma handle_disconnect_eq:
  "handle_disconnect s =
     (fst (check_state_on_disconnect s),
      if raises_on_disconnect (connection_state s) then snd (adapter_disconnect s)
      else on_connection_closed (snd (adapter_disconnect s)))"
proof (cases "adapter_disconnect s")
  case (Pair r s1)
  then have "r = fst (check_state_on_disconnect s)"
    using adapter_disconnect_result [of s] by simp
  with Pair show ?thesis
    by (simp add: handle_disconnect_def check_state_result raises_on_disconnect_def)
qed

lemma on_connection_closed_fields [simp]:
  "socket (on_connection_closed s) = socket s"
  "trace (on_connection_closed s) = trace s @ [OnConnectionClosed]"
  "base_events (on_connection_closed s) = base_events s"
  "event_state (on_connection_closed s) = event_state s"
  "outbound_buffer (on_connection_closed s) = outbound_buffer s"
  "connection_state (on_connection_closed s) = connection_state s"
  "ioloop (on_connection_closed s) = ioloop s"
  "params_ssl (on_connection_closed s) = params_ssl s"
  by (simp_all add: on_connection_closed_def emit_def)

lemma handle_disconnect_result:
  "fst (handle_disconnect s) = fst (check_state_on_disconnect s)"
  by (simp add: handle_disconnect_eq)

lemma handle_disconnect_trace:
  "trace (snd (handle_disconnect s)) =
     trace s @ disconnect_trace s @ closed_callback (connection_state s)"
  by (simp add: handle_disconnect_eq adapter_disconnect_trace closed_callback_def)

lemma handle_disconnect_fields [simp]:
  "socket (snd (handle_disconnect s)) = None"
  "base_events (snd (handle_disconnect s)) = READ OR ERROR"
  "event_state (snd (handle_disconnect s)) = READ OR ERROR"
  "outbound_buffer (snd (handle_disconnect s)) = []"
  "connection_state (snd (handle_disconnect s)) = connection_state s"
  "ioloop (snd (handle_disconnect s)) = ioloop s"
  "params_ssl (snd (handle_disconnect s)) = params_ssl s"
  by (simp_all add: handle_disconnect_eq)

lemma logmsg_fields [simp]:
  "socket (logmsg l m s) = socket s"
  "trace (logmsg l m s) = trace s"
  "base_events (logmsg l m s) = base_events s"
  "event_state (logmsg l m s) = event_state s"
  "outbound_buffer (logmsg l m s) = outbound_buffer s"
  "connection_state (logmsg l m s) = connection_state s"
  "ioloop (logmsg l m s) = ioloop s"
  "stop_ioloop_on_close (logmsg l m s) = stop_ioloop_on_close s"
  "params_ssl (logmsg l m s) = params_ssl s"
  "logs (logmsg l m s) = logs s @ [(l, m)]"
  by (simp_all add: logmsg_def)

lemma disconnect_trace_logmsg [simp]: "disconnect_trace (logmsg l m s) = disconnect_trace s"
  by (simp add: disconnect_trace_def)

lemma check_state_result_logmsg [simp]:
  "fst (check_state_on_disconnect (logmsg l m s)) = fst (check_state_on_disconnect s)"
  by (simp add: check_state_result)

lemma abort_code_facts:
  "c \<in> set ERRORS_TO_ABORT \<Longrightarrow> c \<noteq> 0 \<and> c \<notin> set ERRORS_TO_IGNORE"
  by (auto simp: ERRORS_TO_ABORT_def ERRORS_TO_IGNORE_def EBADF_def ECONNABORTED_def EPIPE_def
      EWOULDBLOCK_def EAGAIN_def EINTR_def)

lemma handle_error_abort:
  assumes "c \<in> set ERRORS_TO_ABORT" and "errno e = Some c"
    and "\<not> sublist ''timed out'' (str e)"
  shows "handle_error (ErrV e) s =
           handle_disconnect (logmsg ERROR_LEVEL ''Fatal Socket Error: %r'' s)"
  using assms abort_code_facts [of c] by (simp add: handle_error_def)

lemma only_error_bit:
  "has_bit ERROR ERROR \<and> \<not> has_bit ERROR READ \<and> \<not> has_bit ERROR WRITE"
  by (simp add: has_bit_def ERROR_def READ_def WRITE_def)

lemma handle_events_error_only:
  assumes "socket s = Some k" and "has_bit events ERROR"
    and "\<not> has_bit events READ" and "\<not> has_bit events WRITE"
  shows "handle_events fd events error write_only s =
           Some (handle_error error (logmsg ERROR_LEVEL ''Error event %r, %r'' s))"
  using assms
  by (simp add: handle_events_def events_write_def events_read_def events_bad_libc_def
      events_error_def)

lemma ignore_code_nonzero: "c \<in> set ERRORS_TO_IGNORE \<Longrightarrow> c \<noteq> 0"
  by (auto simp: ERRORS_TO_IGNORE_def EWOULDBLOCK_def EAGAIN_def EINTR_def)

lemma handle_error_ignore:
  assumes "c \<in> set ERRORS_TO_IGNORE" and "errno e = Some c"
    and "\<not> sublist ''timed out'' (str e)"
  shows "handle_error (ErrV e) s = (Return (), logmsg DEBUG ''Ignoring %s'' s)"
  using assms ignore_code_nonzero [of c] by (simp add: handle_error_def)

text \<open>
  C5, as the code has it. An error event (the \<^verbatim>\<open>ERROR\<close> bit without \<^verbatim>\<open>READ\<close> and \<^verbatim>\<open>WRITE\<close>)
  on an open socket, carrying an exception whose errno is in the abort set and whose text
  does not contain \<^verbatim>\<open>timed out\<close>: the disconnect sequence runs exactly once and the socket
  becomes absent. \<^verbatim>\<open>_on_connection_closed\<close> is called exactly once, after the sequence,
  unless the phase is the protocol handshake, authenticating or tuning: then the phase's
  exception is raised and the callback is not called.
\<close>

theorem abort_error_disconnects_once:
  assumes "socket s = Some k"
    and "c \<in> set ERRORS_TO_ABORT" and "errno e = Some c"
    and "\<not> sublist ''timed out'' (str e)"
    and "has_bit events ERROR" and "\<not> has_bit events READ" and "\<not> has_bit events WRITE"
  shows "\<exists>r s'. handle_events fd events (ErrV e) write_only s = Some (r, s')
           \<and> r = fst (check_state_on_disconnect s)
           \<and> socket s' = None
           \<and> trace s' = trace s @ [RemoveHeartbeat, SockShutdown (fileno k), SockClose (fileno k)]
                @ (if stop_ioloop_on_close s \<and> ioloop s then [IoloopStop] else [])
                @ [ConnectionInitState]
                @ (if raises_on_disconnect (connection_state s) then [] else [OnConnectionClosed])"
proof -
  let ?s1 = "logmsg ERROR_LEVEL ''Fatal Socket Error: %r'' (logmsg ERROR_LEVEL ''Error event %r, %r'' s)"
  have ev: "handle_events fd events (ErrV e) write_only s = Some (handle_disconnect ?s1)"
    using assms by (simp add: handle_events_error_only handle_error_abort)
  have "trace (snd (handle_disconnect ?s1)) =
          trace s @ disconnect_trace s @ closed_callback (connection_state s)"
    by (simp add: handle_disconnect_trace)
  moreover have "fst (handle_disconnect ?s1) = fst (check_state_on_disconnect s)"
    by (simp add: handle_disconnect_result)
  moreover have "socket (snd (handle_disconnect ?s1)) = None"
    by simp
  ultimately show ?thesis
    using ev assms(1)
    by (cases "handle_disconnect ?s1") (simp add: disconnect_trace_def closed_callback_def)
qed

theorem abort_error_disconnects_once_witness:
  "handle_events 7 ERROR (ErrV (OSError (Some EPIPE) ''[Errno 32] Broken pipe'')) False example_conn =
     Some (Return (),
           example_conn\<lparr>socket := None, event_state := 9, outbound_buffer := [],
             trace := [RemoveHeartbeat, SockShutdown 7, SockClose 7, IoloopStop,
                       ConnectionInitState, OnConnectionClosed],
             logs := [(ERROR_LEVEL, ''Error event %r, %r''),
                      (ERROR_LEVEL, ''Fatal Socket Error: %r''),
                      (WARNING, ''Socket closed when connection was open'')]\<rparr>)"
proof -
  have a: "socket example_conn = Some example_sock" by (simp add: example_conn_def)
  have b: "EPIPE \<in> set ERRORS_TO_ABORT" by (simp add: ERRORS_TO_ABORT_def)
  have c: "errno (OSError (Some EPIPE) ''[Errno 32] Broken pipe'') = Some EPIPE" by simp
  have d: "\<not> sublist ''timed out'' (str (OSError (Some EPIPE) ''[Errno 32] Broken pipe''))" by code_simp
  have e: "has_bit ERROR ERROR" "\<not> has_bit ERROR READ" "\<not> has_bit ERROR WRITE"
    using only_error_bit by simp_all
  from abort_error_disconnects_once [OF a b c d e, of 7 False]
  obtain r s' where
    "handle_events 7 ERROR (ErrV (OSError (Some EPIPE) ''[Errno 32] Broken pipe'')) False example_conn = Some (r, s')"
    by blast
  then show ?thesis by code_simp
qed

text \<open>
  The claim C5 as written fails in the authenticating phase: a broken pipe closes the socket,
  \<^verbatim>\<open>ProbableAuthenticationError\<close> is raised, and \<^verbatim>\<open>_on_connection_closed\<close> is never called.
\<close>

theorem abort_error_in_authenticating_counterexample:
  "handle_events 7 ERROR (ErrV (OSError (Some EPIPE) ''[Errno 32] Broken pipe'')) False
     (example_conn\<lparr>connection_state := Authenticating\<rparr>) =
     Some (Raise ProbableAuthenticationError,
           example_conn\<lparr>connection_state := Authenticating,
             socket := None, event_state := 9, outbound_buffer := [],
             trace := [RemoveHeartbeat, SockShutdown 7, SockClose 7, IoloopStop,
                       ConnectionInitState],
             logs := [(ERROR_LEVEL, ''Error event %r, %r''),
                      (ERROR_LEVEL, ''Fatal Socket Error: %r''),
                      (ERROR_LEVEL, ''Socket closed while authenticating indicating a probable authentication error'')]\<rparr>)
   \<and> count_list [RemoveHeartbeat, SockShutdown 7, SockClose 7, IoloopStop,
                  ConnectionInitState] OnConnectionClosed = 0"
  by code_simp

text \<open>
  C3. Under TLS, on an open connection, the error handler given the \<^verbatim>\<open>SSLError\<close> of
  \<^verbatim>\<open>SSL_ERROR_WANT_READ\<close> or of \<^verbatim>\<open>SSL_ERROR_WANT_WRITE\<close> stores the hint and then goes on to
  \<^verbatim>\<open>_handle_disconnect\<close>: the socket is shut down and closed, the reset puts the mask back
  to \<^verbatim>\<open>READ|ERROR\<close> and \<^verbatim>\<open>_on_connection_closed\<close> is called.
\<close>

theorem handle_error_ssl_want_disconnects:
  "handle_error (ErrV (SSLError SSL_ERROR_WANT_READ ''The operation did not complete (read)''))
     (example_conn\<lparr>params_ssl := True\<rparr>) =
     (Return (),
      example_conn\<lparr>params_ssl := True, socket := None, event_state := 9, outbound_buffer := [],
        trace := [RemoveHeartbeat, SockShutdown 7, SockClose 7, IoloopStop,
                  ConnectionInitState, OnConnectionClosed],
        logs := [(WARNING, ''Socket closed when connection was open'')]\<rparr>)
   \<and> handle_error (ErrV (SSLError SSL_ERROR_WANT_WRITE ''The operation did not complete (write)''))
     (example_conn\<lparr>params_ssl := True\<rparr>) =
     (Return (),
      example_conn\<lparr>params_ssl := True, socket := None, event_state := 9, outbound_buffer := [],
        trace := [RemoveHeartbeat, SockShutdown 7, SockClose 7, IoloopStop,
                  ConnectionInitState, OnConnectionClosed],
        logs := [(WARNING, ''Socket closed when connection was open'')]\<rparr>)"
  by code_simp

section \<open>A read of zero bytes\<close>

lemma recv_retry_eintr:
  "\<forall>e\<in>set es. errno e = Some EINTR \<Longrightarrow>
   recv_retry fd (map RecvRaises es @ script) tr =
   recv_retry fd script (tr @ replicate (length es) (SockRecv fd))"
proof (induction es arbitrary: tr)
  case Nil
  then show ?case by simp
next
  case (Cons e es)
  then show ?case by (simp add: replicate_append_same)
qed

lemma sock_recv_empty:
  assumes "socket s = Some k"
    and "\<forall>e\<in>set es. errno e = Some EINTR"
    and "recv_script k = map RecvRaises es @ Received d # later"
  shows "sock_recv s =
           Some (Return d,
                 s\<lparr>socket := Some (k\<lparr>recv_script := later\<rparr>),
                   trace := trace s @ replicate (Suc (length es)) (SockRecv (fileno k))\<rparr>)"
  using assms by (simp add: sock_recv_def recv_retry_eintr replicate_append_same)

lemma none_of_snd: "snd (none_of p) = snd p"
  by (cases p, cases "fst p") (simp_all add: none_of_def)

lemma none_of_fst:
  "fst (none_of p) = (case fst p of Raise x \<Rightarrow> Raise x | Return _ \<Rightarrow> Return None)"
  by (cases p, cases "fst p") (simp_all add: none_of_def)

text \<open>
  C7. The socket is open and \<^verbatim>\<open>recv\<close>, after any number of interrupted attempts, returns
  zero bytes. Then \<^verbatim>\<open>_handle_read\<close> runs the disconnect sequence, whatever the queue holds:
  the socket becomes absent, the queue is emptied by the reset, and the calls made are the
  reads, the disconnect sequence and (unless the phase raises) \<^verbatim>\<open>_on_connection_closed\<close>;
  no \<^verbatim>\<open>send\<close> is among them.
\<close>

theorem empty_read_disconnects:
  assumes "socket s = Some k"
    and "\<forall>e\<in>set es. errno e = Some EINTR"
    and "recv_script k = map RecvRaises es @ Received [] # later"
  shows "\<exists>r s'. handle_read s = Some (r, s')
           \<and> r = (if connection_state s = ProtocolHandshake then Raise IncompatibleProtocolError
                  else if connection_state s = Authenticating then Raise ProbableAuthenticationError
                  else if connection_state s = Tuning then Raise ProbableAccessDeniedError
                  else Return None)
           \<and> socket s' = None
           \<and> outbound_buffer s' = []
           \<and> trace s' = trace s @ replicate (Suc (length es)) (SockRecv (fileno k))
                @ [RemoveHeartbeat, SockShutdown (fileno k), SockClose (fileno k)]
                @ (if stop_ioloop_on_close s \<and> ioloop s then [IoloopStop] else [])
                @ [ConnectionInitState]
                @ (if raises_on_disconnect (connection_state s) then [] else [OnConnectionClosed])"
proof -
  let ?s1 = "s\<lparr>socket := Some (k\<lparr>recv_script := later\<rparr>),
               trace := trace s @ replicate (Suc (length es)) (SockRecv (fileno k))\<rparr>"
  let ?s2 = "logmsg ERROR_LEVEL ''Read empty data, calling disconnect'' ?s1"
  let ?p = "none_of (handle_disconnect ?s2)"
  have rd: "handle_read s = Some (fst ?p, snd ?p)"
    using sock_recv_empty [OF assms] by (simp add: handle_read_def)
  have r: "fst ?p =
      (if connection_state s = ProtocolHandshake then Raise IncompatibleProtocolError
       else if connection_state s = Authenticating then Raise ProbableAuthenticationError
       else if connection_state s = Tuning then Raise ProbableAccessDeniedError
       else Return None)"
    by (simp add: none_of_fst handle_disconnect_result check_state_result)
  have tr: "trace (snd ?p) = trace s @ replicate (Suc (length es)) (SockRecv (fileno k))
                @ [RemoveHeartbeat, SockShutdown (fileno k), SockClose (fileno k)]
                @ (if stop_ioloop_on_close s \<and> ioloop s then [IoloopStop] else [])
                @ [ConnectionInitState]
                @ (if raises_on_disconnect (connection_state s) then [] else [OnConnectionClosed])"
    by (simp add: none_of_snd handle_disconnect_trace disconnect_trace_def closed_callback_def)
  have fl: "socket (snd ?p) = None" "outbound_buffer (snd ?p) = []"
    by (simp_all add: none_of_snd)
  show ?thesis
    using rd r tr fl by blast
qed

theorem empty_read_disconnects_witness:
  "handle_read example_conn =
     Some (Return None,
           example_conn\<lparr>socket := None, event_state := 9, outbound_buffer := [],
             trace := [SockRecv 7, SockRecv 7, RemoveHeartbeat, SockShutdown 7, SockClose 7,
                       IoloopStop, ConnectionInitState, OnConnectionClosed],
             logs := [(ERROR_LEVEL, ''Read empty data, calling disconnect''),
                      (WARNING, ''Socket closed when connection was open'')]\<rparr>)
   \<and> outbound_buffer example_conn = [[1, 2, 3], [4, 5], [6]]"
proof -
  have a: "socket example_conn = Some example_sock" by (simp add: example_conn_def)
  have b: "\<forall>e\<in>set [OSError (Some 4) ''[Errno 4] Interrupted system call'']. errno e = Some EINTR"
    by (simp add: EINTR_def)
  have c: "recv_script example_sock =
             map RecvRaises [OSError (Some 4) ''[Errno 4] Interrupted system call''] @ Received [] # []"
    by (simp add: example_sock_def)
  from empty_read_disconnects [OF a b c]
  obtain r s' where "handle_read example_conn = Some (r, s')" by blast
  then show ?thesis by code_simp
qed

section \<open>What the handlers leave behind\<close>

lemma has_bit_READ: "has_bit m READ \<longleftrightarrow> bit m 0"
  using and_exp_eq_0_iff_not_bit [of m 0] by (simp add: has_bit_def READ_def)

lemma has_bit_WRITE: "has_bit m WRITE \<longleftrightarrow> bit m 2"
  using and_exp_eq_0_iff_not_bit [of m 2] by (simp add: has_bit_def WRITE_def)

lemma has_bit_ERROR: "has_bit m ERROR \<longleftrightarrow> bit m 3"
  using and_exp_eq_0_iff_not_bit [of m 3] by (simp add: has_bit_def ERROR_def)

lemma has_bit_or_WRITE:
  "has_bit (m OR WRITE) READ = has_bit m READ"
  "has_bit (m OR WRITE) ERROR = has_bit m ERROR"
  "has_bit (m OR WRITE) WRITE"
  by (simp_all add: has_bit_READ has_bit_WRITE has_bit_ERROR bit_or_iff)
     (simp_all add: WRITE_def)

lemma has_bit_base:
  "has_bit (READ OR ERROR) READ"
  "has_bit (READ OR ERROR) ERROR"
  "\<not> has_bit (READ OR ERROR) WRITE"
  by (simp_all add: has_bit_def READ_def ERROR_def WRITE_def)

lemma io_step_refl [simp]: "io_step s s"
  by (simp add: io_step_def)

lemma io_step_trans: "io_step s s1 \<Longrightarrow> io_step s1 s2 \<Longrightarrow> io_step s s2"
  by (simp add: io_step_def)

lemma io_step_mask_base: "io_step s s' \<Longrightarrow> mask_base s \<Longrightarrow> mask_base s'"
  by (simp add: io_step_def mask_base_def)

lemma reset_mask_invariant:
  "socket s = None \<Longrightarrow> base_events s = READ OR ERROR \<Longrightarrow> mask_invariant s"
  by (simp add: mask_invariant_def mask_base_def)

lemma mask_invariant_base: "mask_invariant s \<Longrightarrow> mask_base s"
  by (simp add: mask_invariant_def)

lemma update_handler_fields:
  "event_state (snd (update_handler s)) = event_state s"
  "base_events (snd (update_handler s)) = base_events s"
  "socket (snd (update_handler s)) = socket s"
  "outbound_buffer (snd (update_handler s)) = outbound_buffer s"
  "ioloop (snd (update_handler s)) = ioloop s"
  by (simp_all add: update_handler_def emit_def split: option.splits)

lemma manage_event_state_fields:
  "base_events (snd (manage_event_state s)) = base_events s"
  "socket (snd (manage_event_state s)) = socket s"
  "outbound_buffer (snd (manage_event_state s)) = outbound_buffer s"
  "ioloop (snd (manage_event_state s)) = ioloop s"
  by (simp_all add: manage_event_state_def update_handler_fields)

lemma manage_event_state_mask:
  "event_state (snd (manage_event_state s)) =
     (if outbound_buffer s \<noteq> [] then
        (if has_bit (event_state s) WRITE then event_state s else event_state s OR WRITE)
      else if has_bit (event_state s) WRITE then base_events s else event_state s)"
  by (simp add: manage_event_state_def update_handler_fields)

lemma manage_event_state_establishes:
  assumes "mask_base s"
  shows "mask_invariant (snd (manage_event_state s))"
  using assms
  by (simp add: mask_invariant_def mask_base_def manage_event_state_fields
      manage_event_state_mask has_bit_or_WRITE has_bit_base)

lemma manage_event_state_result:
  assumes "socket s = Some k" and "ioloop s"
  shows "fst (manage_event_state s) = Return ()"
  using assms by (simp add: manage_event_state_def update_handler_def)

lemma manage_event_state_idle:
  assumes "outbound_buffer s = []" and "\<not> has_bit (event_state s) WRITE"
  shows "manage_event_state s = (Return (), s)"
  using assms by (simp add: manage_event_state_def)


lemma handle_disconnect_mask_invariant: "mask_invariant (snd (handle_disconnect s))"
  by (simp add: reset_mask_invariant)

lemma handle_disconnect_raises:
  "fst (handle_disconnect s) = Raise x \<Longrightarrow> signal x"
  by (auto simp: handle_disconnect_result check_state_result signal_def split: if_splits)

text \<open>The error handler either leaves the state as it is, but for the log, or disconnects.\<close>

lemma handle_error_cases:
  "(kept s (snd (handle_error ev s))
      \<and> (\<forall>x. fst (handle_error ev s) = Raise x \<longrightarrow>
             timeout_raised x \<or> (x = TypeError \<and> (\<exists>i. ev = IntV i))))
   \<or> (\<exists>s0. handle_error ev s = handle_disconnect s0 \<and> ioloop s0 = ioloop s)"
proof (cases "sublist ''timed out'' (str_value ev)")
  case True
  then have "handle_error ev s = (Raise (OSErr (socket_timeout [])), s)"
    by (simp add: handle_error_def)
  then show ?thesis by (simp add: timeout_raised_def kept_def)
next
  case False
  show ?thesis
  proof (cases "get_error_code ev")
    case (Raise x)
    then have "x = TypeError \<and> (\<exists>i. ev = IntV i)"
      by (cases ev) (auto split: if_splits)
    moreover have "handle_error ev s = (Raise x, s)"
      using False Raise by (simp add: handle_error_def)
    ultimately show ?thesis by (simp add: kept_def)
  next
    case (Return code)
    show ?thesis
    proof (cases code)
      case None
      then have "handle_error ev s =
          (Return (), logmsg CRITICAL ''Tried to handle an error where no error existed'' s)"
        using False Return by (simp add: handle_error_def)
      then show ?thesis by (simp add: kept_def)
    next
      case (Some c)
      consider "c = 0" | "c \<noteq> 0" "c \<in> set ERRORS_TO_IGNORE"
        | "c \<noteq> 0" "c \<notin> set ERRORS_TO_IGNORE"
        by blast
      then show ?thesis
      proof cases
        case 1
        then have "handle_error ev s =
            (Return (), logmsg CRITICAL ''Tried to handle an error where no error existed'' s)"
          using False Return Some by (simp add: handle_error_def)
        then show ?thesis by (simp add: kept_def)
      next
        case 2
        then have "handle_error ev s = (Return (), logmsg DEBUG ''Ignoring %s'' s)"
          using False Return Some by (simp add: handle_error_def)
        then show ?thesis by (simp add: kept_def)
      next
        case 3
        then have "\<exists>s0. handle_error ev s = handle_disconnect s0 \<and> ioloop s0 = ioloop s"
          using False Return Some by (auto simp: handle_error_def)
        then show ?thesis by blast
      qed
    qed
  qed
qed

lemma handle_error_mask_invariant:
  assumes "mask_invariant s"
  shows "mask_invariant (snd (handle_error ev s))"
  using handle_error_cases [where ev = ev and s = s] assms
  by (auto simp: handle_disconnect_mask_invariant mask_invariant_def mask_base_def
      kept_def)

lemma handle_error_mask_base:
  assumes "mask_base s"
  shows "mask_base (snd (handle_error ev s))"
  using handle_error_cases [where ev = ev and s = s] assms
  by (auto simp: mask_base_def kept_def)

lemma handle_error_ioloop: "ioloop (snd (handle_error ev s)) = ioloop s"
  using handle_error_cases [where ev = ev and s = s] by (auto simp: kept_def)

lemma handle_error_raises:
  assumes "fst (handle_error ev s) = Raise x" and "\<forall>i. ev \<noteq> IntV i"
  shows "signal x \<or> timeout_raised x"
  using handle_error_cases [where ev = ev and s = s] assms
  by (auto dest: handle_disconnect_raises)

text \<open>After the error handler, the socket is as before or the state is reset.\<close>

lemma handle_error_socket:
  "(socket (snd (handle_error ev s)) = socket s
      \<and> outbound_buffer (snd (handle_error ev s)) = outbound_buffer s
      \<and> event_state (snd (handle_error ev s)) = event_state s)
   \<or> (socket (snd (handle_error ev s)) = None
      \<and> outbound_buffer (snd (handle_error ev s)) = []
      \<and> event_state (snd (handle_error ev s)) = READ OR ERROR)"
  using handle_error_cases [where ev = ev and s = s] by (auto simp: kept_def)

lemma handle_disconnect_reset: "reset s (snd (handle_disconnect s))"
  by (simp add: reset_def)

lemma handle_error_outcome:
  "(kept s (snd (handle_error ev s))
      \<and> (\<forall>x. fst (handle_error ev s) = Raise x \<longrightarrow>
             timeout_raised x \<or> (x = TypeError \<and> (\<exists>i. ev = IntV i))))
   \<or> (reset s (snd (handle_error ev s))
      \<and> (\<forall>x. fst (handle_error ev s) = Raise x \<longrightarrow> signal x))"
  using handle_error_cases [where ev = ev and s = s]
  by (auto simp: reset_def dest: handle_disconnect_raises)

lemma kept_mask_invariant: "kept s s' \<Longrightarrow> mask_invariant s \<Longrightarrow> mask_invariant s'"
  by (simp add: kept_def mask_invariant_def mask_base_def)

lemma kept_io_step: "kept s s' \<Longrightarrow> io_step s s'"
  by (simp add: kept_def io_step_def)

lemma reset_gives_mask_invariant: "reset s s' \<Longrightarrow> mask_invariant s'"
  by (simp add: reset_def reset_mask_invariant)

lemma reset_after_io_step: "io_step s s1 \<Longrightarrow> reset s1 s2 \<Longrightarrow> reset s s2"
  by (simp add: reset_def io_step_def)

lemma send_retry_raises:
  "send_retry fd frame script tr = Some (Raise x, rest, tr') \<Longrightarrow> \<exists>e. x = OSErr e"
  by (induction fd frame script tr rule: send_retry.induct) (auto split: if_splits)

lemma sock_send_outcome:
  assumes "sock_send frame s = Some (r, s1)"
  shows "io_step s s1" and "outbound_buffer s1 = outbound_buffer s"
    and "r = Raise x \<Longrightarrow> (\<exists>e. x = OSErr e) \<or> (x = AttributeError \<and> socket s = None)"
  using assms
  by (auto simp: sock_send_def io_step_def split: option.splits dest: send_retry_raises)

lemma write_loop_outcome:
  "write_loop n s = Some (ex, s1) \<Longrightarrow>
   io_step s s1
   \<and> (\<forall>x f m. ex = Failed x f m \<longrightarrow> (\<exists>e. x = OSErr e) \<or> (x = AttributeError \<and> socket s = None))"
proof (induction n s arbitrary: ex s1 rule: write_loop.induct)
  case (1 bytes_written s)
  show ?case
  proof (cases "outbound_buffer s")
    case Nil
    with "1.prems" show ?thesis by (auto simp: write_loop.simps [of bytes_written s])
  next
    case (Cons frame rest)
    let ?s0 = "s\<lparr>outbound_buffer := rest\<rparr>"
    have s0: "io_step s ?s0" by (simp add: io_step_def)
    show ?thesis
    proof (cases "sock_send frame ?s0")
      case None
      with Cons "1.prems" show ?thesis by (simp add: write_loop.simps [of bytes_written s])
    next
      case (Some p)
      obtain r s2 where p: "p = (r, s2)" by (cases p)
      have st: "io_step ?s0 s2" using sock_send_outcome(1) Some p by blast
      show ?thesis
      proof (cases r)
        case (Raise x)
        have "(\<exists>e. x = OSErr e) \<or> (x = AttributeError \<and> socket s = None)"
          using sock_send_outcome(3) [of frame ?s0 r s2 x] Some p Raise by simp
        moreover have "ex = Failed x frame bytes_written" "s1 = s2"
          using Cons Some p Raise "1.prems"
          by (simp_all add: write_loop.simps [of bytes_written s])
        ultimately show ?thesis using st s0 by (auto simp: io_step_def)
      next
        case (Return bw)
        show ?thesis
        proof (cases "bw < length frame")
          case True
          then have "ex = Finished (bytes_written + int bw)"
              "s1 = (logmsg DEBUG ''Partial write, requeing remaining data'' s2)
                      \<lparr>outbound_buffer := drop bw frame # outbound_buffer s2\<rparr>"
            using Cons Some p Return "1.prems"
            by (simp_all add: write_loop.simps [of bytes_written s])
          then show ?thesis using st s0 by (auto simp: io_step_def)
        next
          case False
          then have "write_loop (bytes_written + int bw) s2 = Some (ex, s1)"
            using Cons Some p Return "1.prems"
            by (simp add: write_loop.simps [of bytes_written s])
          from "1.IH" [OF Cons Some p [symmetric] Return False this]
          show ?thesis using st s0 by (auto simp: io_step_def)
        qed
      qed
    qed
  qed
qed

lemma kept_stepped: "kept s s' \<Longrightarrow> stepped s s'"
  by (simp add: kept_def stepped_def)

lemma stepped_io_step: "stepped s s' \<Longrightarrow> io_step s s'"
  by (simp add: stepped_def io_step_def)

lemma stepped_mask_invariant: "stepped s s' \<Longrightarrow> mask_invariant s \<Longrightarrow> mask_invariant s'"
  by (simp add: stepped_def mask_invariant_def mask_base_def)

lemma none_of_raise: "fst (none_of p) = Raise x \<Longrightarrow> fst p = Raise x"
  by (simp add: none_of_fst split: result.splits)

lemma handle_write_after_loop:
  "write_loop 0 s = Some (Finished n, s0) \<Longrightarrow> handle_write s = Some (Return (Some n), s0)"
  "write_loop 0 s = Some (Failed AttributeError frame n, s0) \<Longrightarrow>
     handle_write s = Some (Raise AttributeError, s0)"
  "write_loop 0 s = Some (Failed (OSErr e) frame n, s0) \<Longrightarrow>
     handle_write s =
       (if is_socket_timeout e then
          Some (Return (Some n),
                handle_timeout
                  (logmsg DEBUG ''socket timeout, requeuing frame'' s0
                     \<lparr>outbound_buffer := frame # outbound_buffer s0\<rparr>))
        else if errno e = Some EAGAIN \<or> errno e = Some EWOULDBLOCK then
          Some (Return (Some n),
                logmsg DEBUG ''Would block, requeuing frame'' s0
                  \<lparr>outbound_buffer := frame # outbound_buffer s0\<rparr>)
        else Some (none_of (handle_error (ErrV e) s0)))"
  by (simp_all add: handle_write_def)

lemma handle_write_outcome:
  assumes "handle_write s = Some (r, s1)"
  shows "(io_step s s1
            \<and> (\<forall>x. r = Raise x \<longrightarrow> timeout_raised x \<or> (x = AttributeError \<and> socket s = None)))
         \<or> (reset s s1 \<and> (\<forall>x. r = Raise x \<longrightarrow> signal x))"
proof (cases "write_loop 0 s")
  case None
  with assms show ?thesis by (simp add: handle_write_def)
next
  case (Some p)
  obtain ex s0 where p: "p = (ex, s0)" by (cases p)
  have wl: "write_loop 0 s = Some (ex, s0)" using Some p by simp
  have st: "io_step s s0" using write_loop_outcome [OF wl] by simp
  show ?thesis
  proof (cases ex)
    case (Finished n)
    then have "r = Return (Some n)" "s1 = s0"
      using assms wl handle_write_after_loop(1) [of s n s0] by simp_all
    then show ?thesis using st by simp
  next
    case (Failed x frame n)
    from write_loop_outcome [OF wl] Failed
    have "(\<exists>e. x = OSErr e) \<or> (x = AttributeError \<and> socket s = None)"
      by simp
    then show ?thesis
    proof
      assume a: "x = AttributeError \<and> socket s = None"
      then have "r = Raise AttributeError" "s1 = s0"
        using assms wl Failed handle_write_after_loop(2) [of s frame n s0] by simp_all
      then show ?thesis using st a by simp
    next
      assume "\<exists>e. x = OSErr e"
      then obtain e where e: "x = OSErr e" ..
      note hw = handle_write_after_loop(3) [of s e frame n s0]
      show ?thesis
      proof (cases "is_socket_timeout e \<or> errno e = Some EAGAIN \<or> errno e = Some EWOULDBLOCK")
        case True
        then have "(\<exists>v. r = Return v) \<and> io_step s0 s1"
          using assms wl Failed e hw
          by (auto simp: handle_timeout_def logmsg_def io_step_def split: if_splits)
        then show ?thesis using st io_step_trans by blast
      next
        case False
        let ?p = "handle_error (ErrV e) s0"
        have "none_of ?p = (r, s1)"
          using assms wl Failed e hw False by simp
        then have rs: "r = fst (none_of ?p)" "s1 = snd ?p"
          using none_of_snd [of ?p] by simp_all
        from handle_error_outcome [where ev = "ErrV e" and s = s0]
        show ?thesis
        proof
          assume a: "kept s0 (snd ?p)
              \<and> (\<forall>x. fst ?p = Raise x \<longrightarrow>
                     timeout_raised x \<or> (x = TypeError \<and> (\<exists>i. ErrV e = IntV i)))"
          then have "io_step s s1"
            using st rs kept_io_step io_step_trans by blast
          moreover have "\<forall>x. r = Raise x \<longrightarrow> timeout_raised x"
            using a rs none_of_raise [of ?p] by auto
          ultimately show ?thesis by blast
        next
          assume a: "reset s0 (snd ?p) \<and> (\<forall>x. fst ?p = Raise x \<longrightarrow> signal x)"
          then have "reset s s1"
            using st rs reset_after_io_step by blast
          moreover have "\<forall>x. r = Raise x \<longrightarrow> signal x"
            using a rs none_of_raise [of ?p] by auto
          ultimately show ?thesis by blast
        qed
      qed
    qed
  qed
qed

lemma recv_retry_raises:
  "recv_retry fd script tr = Some (Raise x, rest, tr') \<Longrightarrow> \<exists>e. x = OSErr e"
  by (induction fd script tr rule: recv_retry.induct) (auto split: if_splits)

lemma sock_recv_outcome:
  assumes "sock_recv s = Some (r, s1)"
  shows "stepped s s1"
    and "r = Raise x \<Longrightarrow> (\<exists>e. x = OSErr e) \<or> (x = AttributeError \<and> socket s = None)"
  using assms
  by (auto simp: sock_recv_def stepped_def split: option.splits dest: recv_retry_raises)

lemma stepped_trans: "stepped s s1 \<Longrightarrow> stepped s1 s2 \<Longrightarrow> stepped s s2"
  by (simp add: stepped_def)

lemma reset_after_stepped: "stepped s s1 \<Longrightarrow> reset s1 s2 \<Longrightarrow> reset s s2"
  by (simp add: reset_def stepped_def)

lemma none_of_outcome:
  assumes "(stepped s0 (snd p) \<and> (\<forall>x. fst p = Raise x \<longrightarrow> timeout_raised x))
           \<or> (reset s0 (snd p) \<and> (\<forall>x. fst p = Raise x \<longrightarrow> signal x))"
    and "stepped s s0"
  shows "(stepped s (snd (none_of p)) \<and> (\<forall>x. fst (none_of p) = Raise x \<longrightarrow> timeout_raised x))
         \<or> (reset s (snd (none_of p)) \<and> (\<forall>x. fst (none_of p) = Raise x \<longrightarrow> signal x))"
proof -
  have "stepped s0 (snd p) \<Longrightarrow> stepped s (snd p)"
    using assms(2) by (rule stepped_trans)
  moreover have "reset s0 (snd p) \<Longrightarrow> reset s (snd p)"
    using assms(2) by (rule reset_after_stepped)
  moreover have "\<And>x. fst (none_of p) = Raise x \<Longrightarrow> fst p = Raise x"
    by (simp add: none_of_fst split: result.splits)
  ultimately show ?thesis
    using assms(1) by (auto simp: none_of_snd)
qed

lemma handle_read_after_recv:
  "sock_recv s = Some (Raise AttributeError, s0) \<Longrightarrow>
     handle_read s = Some (Raise AttributeError, s0)"
  "sock_recv s = Some (Return [], s0) \<Longrightarrow>
     handle_read s =
       Some (none_of (handle_disconnect
               (logmsg ERROR_LEVEL ''Read empty data, calling disconnect'' s0)))"
  "sock_recv s = Some (Return d, s0) \<Longrightarrow> d \<noteq> [] \<Longrightarrow>
     handle_read s = Some (Return (Some (int (length d))), on_data_available d s0)"
  "sock_recv s = Some (Raise (OSErr e), s0) \<Longrightarrow>
     handle_read s = Some (Return (Some 0), s0)
     \<or> handle_read s = Some (none_of (handle_error (ErrV e) s0))"
  by (simp_all add: handle_read_def handle_timeout_def)

lemma handle_read_outcome:
  assumes "handle_read s = Some (r, s1)"
  shows "(stepped s s1
            \<and> (\<forall>x. r = Raise x \<longrightarrow> timeout_raised x \<or> (x = AttributeError \<and> socket s = None)))
         \<or> (reset s s1 \<and> (\<forall>x. r = Raise x \<longrightarrow> signal x))"
proof (cases "sock_recv s")
  case None
  with assms show ?thesis by (simp add: handle_read_def)
next
  case (Some p)
  obtain r0 s0 where p: "p = (r0, s0)" by (cases p)
  have rc: "sock_recv s = Some (r0, s0)" using Some p by simp
  have st: "stepped s s0" using sock_recv_outcome(1) [OF rc] .
  have fin: "handle_read s = Some (none_of q) \<Longrightarrow>
             (stepped s0 (snd q) \<and> (\<forall>x. fst q = Raise x \<longrightarrow> timeout_raised x))
             \<or> (reset s0 (snd q) \<and> (\<forall>x. fst q = Raise x \<longrightarrow> signal x)) \<Longrightarrow> ?thesis" for q
  proof -
    assume h: "handle_read s = Some (none_of q)"
      and o: "(stepped s0 (snd q) \<and> (\<forall>x. fst q = Raise x \<longrightarrow> timeout_raised x))
             \<or> (reset s0 (snd q) \<and> (\<forall>x. fst q = Raise x \<longrightarrow> signal x))"
    from h assms have "none_of q = (r, s1)" by simp
    then have rs: "r = fst (none_of q)" "s1 = snd (none_of q)" by simp_all
    from none_of_outcome [OF o st] show ?thesis
      unfolding rs by blast
  qed
  show ?thesis
  proof (cases r0)
    case (Return data)
    show ?thesis
    proof (cases "data = []")
      case True
      let ?s2 = "logmsg ERROR_LEVEL ''Read empty data, calling disconnect'' s0"
      have "handle_read s = Some (none_of (handle_disconnect ?s2))"
        using rc Return True handle_read_after_recv(2) by simp
      moreover have "reset s0 (snd (handle_disconnect ?s2))"
        by (simp add: reset_def)
      moreover have "\<forall>x. fst (handle_disconnect ?s2) = Raise x \<longrightarrow> signal x"
        using handle_disconnect_raises by blast
      ultimately show ?thesis
        using fin [of "handle_disconnect ?s2"] by blast
    next
      case False
      then have "r = Return (Some (int (length data)))" "s1 = on_data_available data s0"
        using assms rc Return handle_read_after_recv(3) [of s data s0] by simp_all
      then show ?thesis
        using st by (simp add: stepped_def on_data_available_def emit_def)
    qed
  next
    case (Raise x)
    from sock_recv_outcome(2) [OF rc Raise]
    have "(\<exists>e. x = OSErr e) \<or> (x = AttributeError \<and> socket s = None)" .
    then show ?thesis
    proof
      assume a: "x = AttributeError \<and> socket s = None"
      then have "r = Raise AttributeError" "s1 = s0"
        using assms rc Raise handle_read_after_recv(1) [of s s0] by simp_all
      then show ?thesis using st a by simp
    next
      assume "\<exists>e. x = OSErr e"
      then obtain e where e: "x = OSErr e" ..
      from handle_read_after_recv(4) [of s e s0] rc Raise e
      have "handle_read s = Some (Return (Some 0), s0)
            \<or> handle_read s = Some (none_of (handle_error (ErrV e) s0))"
        by simp
      then show ?thesis
      proof
        assume "handle_read s = Some (Return (Some 0), s0)"
        with assms have "r = Return (Some 0)" "s1 = s0" by simp_all
        then show ?thesis using st by simp
      next
        assume h: "handle_read s = Some (none_of (handle_error (ErrV e) s0))"
        have "(stepped s0 (snd (handle_error (ErrV e) s0))
                 \<and> (\<forall>x. fst (handle_error (ErrV e) s0) = Raise x \<longrightarrow> timeout_raised x))
              \<or> (reset s0 (snd (handle_error (ErrV e) s0))
                 \<and> (\<forall>x. fst (handle_error (ErrV e) s0) = Raise x \<longrightarrow> signal x))"
          using handle_error_outcome [where ev = "ErrV e" and s = s0]
          by (auto intro: kept_stepped)
        with h show ?thesis by (rule fin)
      qed
    qed
  qed
qed

lemma events_write_outcome:
  assumes "events_write events s = Some (r, s1)" and "ioloop s"
  shows "(\<forall>x. r = Raise x \<longrightarrow> signal x \<or> timeout_raised x)
         \<and> ioloop s1
         \<and> (mask_invariant s \<and> r = Return () \<longrightarrow> mask_invariant s1)
         \<and> (mask_base s \<and> socket s \<noteq> None \<and> has_bit events WRITE \<and> r = Return ()
              \<longrightarrow> mask_invariant s1)"
proof (cases "socket s \<noteq> None \<and> has_bit events WRITE")
  case False
  then have "r = Return ()" "s1 = s"
    using assms by (auto simp: events_write_def)
  then show ?thesis using assms False by auto
next
  case True
  show ?thesis
  proof (cases "handle_write s")
    case None
    with True assms show ?thesis by (simp add: events_write_def)
  next
    case (Some p)
    obtain r0 s0 where p: "p = (r0, s0)" by (cases p)
    have hw: "handle_write s = Some (r0, s0)" using Some p by simp
    have ev: "Some (r, s1) =
        (case r0 of Raise x \<Rightarrow> Some (Raise x, s0) | Return _ \<Rightarrow> Some (manage_event_state s0))"
      using True assms hw by (simp add: events_write_def)
    from handle_write_outcome [OF hw]
    show ?thesis
    proof
      assume a: "io_step s s0
          \<and> (\<forall>x. r0 = Raise x \<longrightarrow> timeout_raised x \<or> (x = AttributeError \<and> socket s = None))"
      then have io: "ioloop s0" "socket s0 \<noteq> None"
        using assms True by (simp_all add: io_step_def)
      show ?thesis
      proof (cases r0)
        case (Raise x)
        then have "r = Raise x" "s1 = s0" using ev by simp_all
        then show ?thesis using a Raise True io by auto
      next
        case (Return v)
        then have rs: "r = fst (manage_event_state s0)" "s1 = snd (manage_event_state s0)"
          using ev by (simp_all add: prod_eq_iff)
        obtain k where k: "socket s0 = Some k" using io by auto
        have "r = Return ()"
          using manage_event_state_result [OF k io(1)] rs by simp
        moreover have "ioloop s1"
          using rs io by (simp add: manage_event_state_fields)
        moreover have "mask_base s \<Longrightarrow> mask_invariant s1"
          using a rs io_step_mask_base manage_event_state_establishes by blast
        ultimately show ?thesis using mask_invariant_base by blast
      qed
    next
      assume b: "reset s s0 \<and> (\<forall>x. r0 = Raise x \<longrightarrow> signal x)"
      then have idle: "manage_event_state s0 = (Return (), s0)"
        by (intro manage_event_state_idle) (simp_all add: reset_def has_bit_base)
      have inv: "mask_invariant s0" "ioloop s0"
        using b assms reset_gives_mask_invariant by (auto simp: reset_def)
      show ?thesis
      proof (cases r0)
        case (Raise x)
        then have "r = Raise x" "s1 = s0" using ev by simp_all
        then show ?thesis using b Raise inv by auto
      next
        case (Return v)
        then have "r = Return ()" "s1 = s0" using ev idle by simp_all
        then show ?thesis using inv by simp
      qed
    qed
  qed
qed

lemma events_read_outcome:
  assumes "events_read events write_only s = Some (r, s1)" and "ioloop s"
  shows "(\<forall>x. r = Raise x \<longrightarrow> signal x \<or> timeout_raised x)
         \<and> ioloop s1
         \<and> (mask_invariant s \<longrightarrow> mask_invariant s1)"
proof (cases "socket s \<noteq> None \<and> \<not> write_only \<and> has_bit events READ")
  case False
  then have "r = Return ()" "s1 = s"
    using assms by (auto simp: events_read_def)
  then show ?thesis using assms by simp
next
  case True
  show ?thesis
  proof (cases "handle_read s")
    case None
    with True assms show ?thesis by (simp add: events_read_def)
  next
    case (Some p)
    obtain r0 s0 where p: "p = (r0, s0)" by (cases p)
    have hr: "handle_read s = Some (r0, s0)" using Some p by simp
    have ev: "s1 = s0" "\<And>x. r = Raise x \<Longrightarrow> r0 = Raise x"
      using True assms hr by (auto simp: events_read_def split: result.splits)
    from handle_read_outcome [OF hr]
    show ?thesis
    proof
      assume "stepped s s0
          \<and> (\<forall>x. r0 = Raise x \<longrightarrow> timeout_raised x \<or> (x = AttributeError \<and> socket s = None))"
      then show ?thesis
        using ev True assms stepped_mask_invariant [of s s0]
        by (auto simp: stepped_def)
    next
      assume "reset s s0 \<and> (\<forall>x. r0 = Raise x \<longrightarrow> signal x)"
      then show ?thesis
        using ev assms reset_gives_mask_invariant [of s s0]
        by (auto simp: reset_def)
    qed
  qed
qed

lemma events_bad_libc_outcome:
  assumes "events_bad_libc events write_only s = (r, s1)" and "ioloop s"
  shows "(\<forall>x. r = Raise x \<longrightarrow> signal x)
         \<and> ioloop s1
         \<and> (mask_invariant s \<longrightarrow> mask_invariant s1)"
proof (cases "socket s \<noteq> None \<and> write_only \<and> has_bit events READ \<and> has_bit events ERROR")
  case False
  then have "r = Return ()" "s1 = s"
    using assms by (auto simp: events_bad_libc_def)
  then show ?thesis using assms by simp
next
  case True
  let ?s0 = "logmsg ERROR_LEVEL ''BAD libc:  Write-Only but Read+Error. Assume socket disconnected.'' s"
  have "handle_disconnect ?s0 = (r, s1)"
    using True assms by (simp add: events_bad_libc_def)
  then have "r = fst (handle_disconnect ?s0)" "s1 = snd (handle_disconnect ?s0)"
    by simp_all
  then show ?thesis
    using handle_disconnect_raises [of ?s0] handle_disconnect_mask_invariant [of ?s0] assms
    by simp
qed

lemma events_error_outcome:
  assumes "events_error events error s = (r, s1)"
  shows "(\<forall>x. r = Raise x \<longrightarrow> (\<forall>i. error \<noteq> IntV i) \<longrightarrow> signal x \<or> timeout_raised x)
         \<and> (mask_invariant s \<longrightarrow> mask_invariant s1)"
proof (cases "socket s \<noteq> None \<and> has_bit events ERROR")
  case False
  then have "r = Return ()" "s1 = s"
    using assms by (auto simp: events_error_def)
  then show ?thesis by simp
next
  case True
  let ?s0 = "logmsg ERROR_LEVEL ''Error event %r, %r'' s"
  have "handle_error error ?s0 = (r, s1)"
    using True assms by (simp add: events_error_def)
  then have rs: "r = fst (handle_error error ?s0)" "s1 = snd (handle_error error ?s0)"
    by simp_all
  have "mask_invariant s \<Longrightarrow> mask_invariant ?s0"
    by (simp add: mask_invariant_def mask_base_def)
  then show ?thesis
    using handle_error_raises [of error ?s0] handle_error_mask_invariant [of ?s0 error] rs
    by auto
qed

lemma handle_events_open:
  "socket s \<noteq> None \<Longrightarrow>
   handle_events fd events error write_only s =
     (case events_write events s of
        None \<Rightarrow> None
      | Some (Raise x, s1) \<Rightarrow> Some (Raise x, s1)
      | Some (Return _, s1) \<Rightarrow>
          (case events_read events write_only s1 of
             None \<Rightarrow> None
           | Some (Raise x, s2) \<Rightarrow> Some (Raise x, s2)
           | Some (Return _, s2) \<Rightarrow>
               (case events_bad_libc events write_only s2 of
                  (Raise x, s3) \<Rightarrow> Some (Raise x, s3)
                | (Return _, s3) \<Rightarrow> Some (events_error events error s3))))"
  by (simp add: handle_events_def del: not_None_eq)

lemma handle_events_outcome:
  assumes "handle_events fd events error write_only s = Some (r, s')" and "ioloop s"
  shows "(\<forall>x. r = Raise x \<longrightarrow> (\<forall>i. error \<noteq> IntV i) \<longrightarrow> signal x \<or> timeout_raised x)
         \<and> (mask_invariant s \<and> r = Return () \<longrightarrow> mask_invariant s')"
proof (cases "socket s = None")
  case True
  then have "r = Return ()" "s' = logmsg ERROR_LEVEL ''Received events on closed socket: %r'' s"
    using assms by (simp_all add: handle_events_def)
  then show ?thesis by (simp add: mask_invariant_def mask_base_def)
next
  case False
  note he = handle_events_open [OF False, of fd events error write_only]
  show ?thesis
  proof (cases "events_write events s")
    case None
    with he assms show ?thesis by simp
  next
    case (Some p1)
    obtain r1 s1 where p1: "events_write events s = Some (r1, s1)"
      using Some by (cases p1) simp
    note w = events_write_outcome [OF p1 assms(2)]
    show ?thesis
    proof (cases r1)
      case (Raise x)
      then have "r = Raise x" using he assms p1 by simp
      then show ?thesis using w Raise by simp
    next
      case Return1: (Return u1)
      show ?thesis
      proof (cases "events_read events write_only s1")
        case None
        with he assms p1 Return1 show ?thesis by simp
      next
        case (Some p2)
        obtain r2 s2 where p2: "events_read events write_only s1 = Some (r2, s2)"
          using Some by (cases p2) simp
        have io1: "ioloop s1" using w by simp
        note rd = events_read_outcome [OF p2 io1]
        show ?thesis
        proof (cases r2)
          case (Raise x)
          then have "r = Raise x"
            using he assms p1 Return1 p2 by simp
          then show ?thesis using rd Raise by simp
        next
          case Return2: (Return u2)
          obtain r3 s3 where p3: "events_bad_libc events write_only s2 = (r3, s3)"
            by (cases "events_bad_libc events write_only s2")
          have io2: "ioloop s2" using rd by simp
          note bl = events_bad_libc_outcome [OF p3 io2]
          show ?thesis
          proof (cases r3)
            case (Raise x)
            then have "r = Raise x"
              using he assms p1 Return1 p2 Return2 p3 by simp
            then show ?thesis using bl Raise by simp
          next
            case Return3: (Return u3)
            then have p4: "events_error events error s3 = (r, s')"
              using he assms p1 Return1 p2 Return2 p3 by simp
            note er = events_error_outcome [OF p4]
            show ?thesis
              using w rd bl er Return1 Return2 Return3 by simp
          qed
        qed
      qed
    qed
  qed
qed


section \<open>Ignored errors\<close>

lemma events_error_ignored:
  assumes "socket s = Some k"
    and "c \<in> set ERRORS_TO_IGNORE" and "errno e = Some c"
    and "has_bit events ERROR"
  shows "events_error events (ErrV e) s =
           (if sublist ''timed out'' (str e) then Raise (OSErr (socket_timeout []))
            else Return (),
            s\<lparr>logs := logs s @ (ERROR_LEVEL, ''Error event %r, %r'')
                   # (if sublist ''timed out'' (str e) then []
                      else [(DEBUG, ''Ignoring %s'')])\<rparr>)"
proof (cases "sublist ''timed out'' (str e)")
  case True
  then have "handle_error (ErrV e) (logmsg ERROR_LEVEL ''Error event %r, %r'' s) =
               (Raise (OSErr (socket_timeout [])), logmsg ERROR_LEVEL ''Error event %r, %r'' s)"
    by (simp add: handle_error_def)
  then show ?thesis
    using assms True by (simp add: events_error_def logmsg_def)
next
  case False
  then show ?thesis
    using assms
    by (simp add: events_error_def handle_error_ignore [of c] logmsg_def)
qed

text \<open>
  C6, as the code has it. A \<^verbatim>\<open>_handle_events\<close> call on an open socket with the \<^verbatim>\<open>ERROR\<close> bit,
  carrying an exception whose errno is in the ignore set. The write stage, the read stage and
  the write-only guard run first; when they have returned and left a socket, the error
  handler adds log records to the state they left and nothing else: the socket is still open,
  no call of the disconnect sequence was made by it and the phase is unchanged. The call then
  returns, unless the text of the exception contains \<^verbatim>\<open>timed out\<close>, which no text of these
  three codes does. A mask with neither \<^verbatim>\<open>READ\<close> nor \<^verbatim>\<open>WRITE\<close> is the case where the three
  stages do nothing.
\<close>

theorem ignored_error_leaves_socket_open:
  assumes "socket s = Some k"
    and "c \<in> set ERRORS_TO_IGNORE" and "errno e = Some c"
    and "has_bit events ERROR"
    and "events_write events s = Some (Return (), s1)"
    and "events_read events write_only s1 = Some (Return (), s2)"
    and "events_bad_libc events write_only s2 = (Return (), s3)"
    and "socket s3 = Some k3"
  shows "handle_events fd events (ErrV e) write_only s =
           Some (if sublist ''timed out'' (str e) then Raise (OSErr (socket_timeout []))
                 else Return (),
                 s3\<lparr>logs := logs s3 @ (ERROR_LEVEL, ''Error event %r, %r'')
                        # (if sublist ''timed out'' (str e) then []
                           else [(DEBUG, ''Ignoring %s'')])\<rparr>)"
proof -
  have "socket s \<noteq> None" using assms(1) by simp
  from handle_events_open [OF this, of fd events "ErrV e" write_only]
  have "handle_events fd events (ErrV e) write_only s = Some (events_error events (ErrV e) s3)"
    using assms(5-7) by simp
  then show ?thesis
    using events_error_ignored [OF assms(8) assms(2-4)] by simp
qed

theorem ignored_error_leaves_socket_open_witness:
  "handle_events 7 (READ OR ERROR)
     (ErrV (OSError (Some EAGAIN) ''[Errno 11] Resource temporarily unavailable'')) False
     reading_conn =
     Some (Return (),
           reading_conn\<lparr>socket := Some (example_sock\<lparr>recv_script := []\<rparr>),
             trace := [SockRecv 7, OnDataAvailable [1, 2]],
             logs := [(ERROR_LEVEL, ''Error event %r, %r''), (DEBUG, ''Ignoring %s'')]\<rparr>)
   \<and> connection_state reading_conn = Open"
proof -
  let ?e = "OSError (Some EAGAIN) ''[Errno 11] Resource temporarily unavailable''"
  let ?k = "example_sock\<lparr>recv_script := [Received [1, 2]]\<rparr>"
  let ?k3 = "example_sock\<lparr>recv_script := []\<rparr>"
  let ?s2 = "reading_conn\<lparr>socket := Some ?k3, trace := [SockRecv 7, OnDataAvailable [1, 2]]\<rparr>"
  have a: "socket reading_conn = Some ?k" by code_simp
  have b: "EAGAIN \<in> set ERRORS_TO_IGNORE" by (simp add: ERRORS_TO_IGNORE_def)
  have c: "errno ?e = Some EAGAIN" by simp
  have d: "has_bit (READ OR ERROR) ERROR" by code_simp
  have w: "events_write (READ OR ERROR) reading_conn = Some (Return (), reading_conn)"
    by code_simp
  have r: "events_read (READ OR ERROR) False reading_conn = Some (Return (), ?s2)"
    by code_simp
  have g: "events_bad_libc (READ OR ERROR) False ?s2 = (Return (), ?s2)"
    by code_simp
  have k3: "socket ?s2 = Some ?k3" by simp
  have n: "\<not> sublist ''timed out'' (str ?e)" by code_simp
  have l: "logs ?s2 = []" "connection_state reading_conn = Open" by code_simp+
  show ?thesis
    using ignored_error_leaves_socket_open [OF a b c d w r g k3, of 7] n l
    by simp
qed

text \<open>
  The claim C6 as written fails for a write-only call whose mask holds \<^verbatim>\<open>READ\<close> and \<^verbatim>\<open>ERROR\<close>:
  the guard that runs before the error handler disconnects, whatever code the error carries.
\<close>

theorem write_only_read_error_counterexample:
  "handle_events 7 (READ OR ERROR)
     (ErrV (OSError (Some EAGAIN) ''[Errno 11] Resource temporarily unavailable'')) True
     example_conn =
     Some (Return (),
           example_conn\<lparr>socket := None, event_state := 9, outbound_buffer := [],
             trace := [RemoveHeartbeat, SockShutdown 7, SockClose 7, IoloopStop,
                       ConnectionInitState, OnConnectionClosed],
             logs := [(ERROR_LEVEL,
                       ''BAD libc:  Write-Only but Read+Error. Assume socket disconnected.''),
                      (WARNING, ''Socket closed when connection was open'')]\<rparr>)
   \<and> EAGAIN \<in> set ERRORS_TO_IGNORE
   \<and> has_bit (READ OR ERROR) ERROR
   \<and> socket example_conn = Some example_sock"
  by code_simp

section \<open>The event mask\<close>




section \<open>Exceptions that leave the event handler\<close>

text \<open>
  The handlers with collaborators that raise do what the handlers above do, step for step,
  until a collaborator raises; from there on the result is an exception that a collaborator
  answered with.
\<close>

lemma collaborator_raised_Return [simp]: "\<not> collaborator_raised env (Return v)"
  by (simp add: collaborator_raised_def)

lemma collaborator_raised_Raise [simp]: "collaborator_raised env (Raise x) = raised_by env x"
  by (simp add: collaborator_raised_def)

lemma collaborator_raised_in_Some [simp]:
  "collaborator_raised_in env (Some (r, s)) = collaborator_raised env r"
  by (simp add: collaborator_raised_in_def)

lemma collaborator_raised_in_None [simp]: "\<not> collaborator_raised_in env None"
  by (simp add: collaborator_raised_in_def)

lemma remove_heartbeat_with_refines:
  "remove_heartbeat_with env s = (Return (), remove_heartbeat s)
   \<or> collaborator_raised env (fst (remove_heartbeat_with env s))"
  by (auto simp: remove_heartbeat_with_def collaborator_raised_def raised_by_def split: option.splits)

lemma cleanup_socket_with_refines:
  "cleanup_socket_with env s = (Return (), cleanup_socket s)
   \<or> collaborator_raised env (fst (cleanup_socket_with env s))"
  by (auto simp: cleanup_socket_with_def cleanup_socket_def collaborator_raised_def raised_by_def Let_def
           split: option.splits)

lemma handle_ioloop_stop_with_refines:
  "handle_ioloop_stop_with env s = (Return (), handle_ioloop_stop s)
   \<or> collaborator_raised env (fst (handle_ioloop_stop_with env s))"
  by (auto simp: handle_ioloop_stop_with_def handle_ioloop_stop_def collaborator_raised_def raised_by_def
           split: option.splits)

lemma init_connection_state_with_refines:
  "init_connection_state_with env s = (Return (), init_connection_state s)
   \<or> collaborator_raised env (fst (init_connection_state_with env s))"
  by (auto simp: init_connection_state_with_def collaborator_raised_def raised_by_def split: option.splits)

lemma adapter_disconnect_try_with_refines:
  "adapter_disconnect_try_with env s = check_state_on_disconnect (cleanup_socket (remove_heartbeat s))
   \<or> collaborator_raised env (fst (adapter_disconnect_try_with env s))"
proof -
  consider (a) "remove_heartbeat_with env s = (Return (), remove_heartbeat s)"
               "cleanup_socket_with env (remove_heartbeat s) = (Return (), cleanup_socket (remove_heartbeat s))"
    | (b) "remove_heartbeat_with env s = (Return (), remove_heartbeat s)"
          "collaborator_raised env (fst (cleanup_socket_with env (remove_heartbeat s)))"
    | (c) "collaborator_raised env (fst (remove_heartbeat_with env s))"
    using remove_heartbeat_with_refines [of env s]
          cleanup_socket_with_refines [of env "remove_heartbeat s"] by blast
  then show ?thesis
  proof cases
    case a
    then show ?thesis by (simp add: adapter_disconnect_try_with_def)
  next
    case b
    then show ?thesis
      by (cases "cleanup_socket_with env (remove_heartbeat s)")
         (auto simp: adapter_disconnect_try_with_def split: result.splits)
  next
    case c
    then show ?thesis
      by (cases "remove_heartbeat_with env s")
         (auto simp: adapter_disconnect_try_with_def split: result.splits)
  qed
qed

lemma adapter_disconnect_finally_with_refines:
  "adapter_disconnect_finally_with env r s = (r, init_connection_state (handle_ioloop_stop s))
   \<or> collaborator_raised env (fst (adapter_disconnect_finally_with env r s))"
proof -
  consider (a) "handle_ioloop_stop_with env s = (Return (), handle_ioloop_stop s)"
               "init_connection_state_with env (handle_ioloop_stop s)
                  = (Return (), init_connection_state (handle_ioloop_stop s))"
    | (b) "handle_ioloop_stop_with env s = (Return (), handle_ioloop_stop s)"
          "collaborator_raised env (fst (init_connection_state_with env (handle_ioloop_stop s)))"
    | (c) "collaborator_raised env (fst (handle_ioloop_stop_with env s))"
    using handle_ioloop_stop_with_refines [of env s]
          init_connection_state_with_refines [of env "handle_ioloop_stop s"] by blast
  then show ?thesis
  proof cases
    case a
    then show ?thesis by (simp add: adapter_disconnect_finally_with_def)
  next
    case b
    then show ?thesis
      by (cases "init_connection_state_with env (handle_ioloop_stop s)")
         (auto simp: adapter_disconnect_finally_with_def split: result.splits)
  next
    case c
    then show ?thesis
      by (cases "handle_ioloop_stop_with env s")
         (auto simp: adapter_disconnect_finally_with_def split: result.splits)
  qed
qed

lemma adapter_disconnect_with_refines:
  "adapter_disconnect_with env s = adapter_disconnect s
   \<or> collaborator_raised env (fst (adapter_disconnect_with env s))"
proof (cases "adapter_disconnect_try_with env s")
  case (Pair r s3)
  show ?thesis
  proof (cases "collaborator_raised env (fst (adapter_disconnect_finally_with env r s3))")
    case True
    then show ?thesis by (simp add: adapter_disconnect_with_def Pair)
  next
    case False
    then have fin: "adapter_disconnect_finally_with env r s3
                      = (r, init_connection_state (handle_ioloop_stop s3))"
      using adapter_disconnect_finally_with_refines [of env r s3] by blast
    show ?thesis
    proof (cases "collaborator_raised env r")
      case True
      then show ?thesis by (simp add: adapter_disconnect_with_def Pair fin)
    next
      case False
      then have "check_state_on_disconnect (cleanup_socket (remove_heartbeat s)) = (r, s3)"
        using adapter_disconnect_try_with_refines [of env s] Pair by simp
      then have "adapter_disconnect s = (r, init_connection_state (handle_ioloop_stop s3))"
        by (simp add: adapter_disconnect_def Let_def)
      then show ?thesis by (simp add: adapter_disconnect_with_def Pair fin)
    qed
  qed
qed

lemma handle_disconnect_with_refines:
  "handle_disconnect_with env s = handle_disconnect s
   \<or> collaborator_raised env (fst (handle_disconnect_with env s))"
  using adapter_disconnect_with_refines [of env s]
  by (auto simp: handle_disconnect_with_def handle_disconnect_def collaborator_raised_def raised_by_def
      split: option.splits prod.splits result.splits)

lemma handle_error_with_refines:
  "handle_error_with env ev s = handle_error ev s
   \<or> collaborator_raised env (fst (handle_error_with env ev s))"
  using handle_disconnect_with_refines [of env]
  by (auto simp: handle_error_with_def handle_error_def
      split: option.splits result.splits)

lemma update_handler_with_refines:
  "update_handler_with env s = update_handler s
   \<or> collaborator_raised env (fst (update_handler_with env s))"
  by (auto simp: update_handler_with_def update_handler_def collaborator_raised_def raised_by_def
      split: option.splits)

lemma manage_event_state_with_refines:
  "manage_event_state_with env s = manage_event_state s
   \<or> collaborator_raised env (fst (manage_event_state_with env s))"
  using update_handler_with_refines [of env]
  by (auto simp: manage_event_state_with_def manage_event_state_def)


lemma none_of_raised:
  "collaborator_raised env (fst p) \<Longrightarrow> collaborator_raised_in env (Some (none_of p))"
proof (cases p)
  case (Pair r s)
  assume "collaborator_raised env (fst p)"
  then show ?thesis by (cases r) (simp_all add: Pair none_of_def)
qed

lemma none_of_error_with_refines:
  "Some (none_of (handle_error_with env ev s)) = Some (none_of (handle_error ev s))
   \<or> collaborator_raised_in env (Some (none_of (handle_error_with env ev s)))"
  using handle_error_with_refines [of env ev s] none_of_raised [of env "handle_error_with env ev s"]
  by auto

lemma none_of_disconnect_with_refines:
  "Some (none_of (handle_disconnect_with env s)) = Some (none_of (handle_disconnect s))
   \<or> collaborator_raised_in env (Some (none_of (handle_disconnect_with env s)))"
  using handle_disconnect_with_refines [of env s] none_of_raised [of env "handle_disconnect_with env s"]
  by auto

lemma handle_write_with_refines:
  "handle_write_with env s = handle_write s
   \<or> collaborator_raised_in env (handle_write_with env s)"
proof (cases "write_loop 0 s")
  case None
  then show ?thesis by (simp add: handle_write_with_def handle_write_def)
next
  case (Some p)
  obtain w s1 where p: "p = (w, s1)" by (cases p)
  show ?thesis
  proof (cases w)
    case (Finished n)
    then show ?thesis by (simp add: handle_write_with_def handle_write_def Some p)
  next
    case (Failed x frame n)
    show ?thesis
    proof (cases x)
      case (OSErr e)
      show ?thesis
        using none_of_error_with_refines [of env "ErrV e" s1]
        by (simp add: handle_write_with_def handle_write_def Some p Failed OSErr)
    qed (simp_all add: handle_write_with_def handle_write_def Some p Failed)
  qed
qed

lemma handle_read_with_refines:
  "handle_read_with env s = handle_read s
   \<or> collaborator_raised_in env (handle_read_with env s)"
proof (cases "sock_recv s")
  case None
  then show ?thesis by (simp add: handle_read_with_def handle_read_def)
next
  case (Some p)
  obtain r s1 where p: "p = (r, s1)" by (cases p)
  show ?thesis
  proof (cases r)
    case (Return data)
    show ?thesis
      using none_of_disconnect_with_refines
              [of env "logmsg ERROR_LEVEL ''Read empty data, calling disconnect'' s1"]
      by (cases "env DataCallback")
         (simp_all add: handle_read_with_def handle_read_def Some p Return
            collaborator_raised_def raised_by_def, blast)
  next
    case (Raise x)
    show ?thesis
    proof (cases x)
      case (OSErr e)
      show ?thesis
        using none_of_error_with_refines [of env "ErrV e" s1]
        by (simp add: handle_read_with_def handle_read_def Some p Raise OSErr)
    qed (simp_all add: handle_read_with_def handle_read_def Some p Raise)
  qed
qed

lemma events_write_with_refines:
  "events_write_with env events s = events_write events s
   \<or> collaborator_raised_in env (events_write_with env events s)"
proof (cases "collaborator_raised_in env (handle_write_with env s)")
  case True
  then show ?thesis
    by (cases "handle_write_with env s")
       (auto simp: events_write_with_def events_write_def split: result.splits)
next
  case False
  then have eq: "handle_write_with env s = handle_write s"
    using handle_write_with_refines [of env s] by blast
  show ?thesis
  proof (cases "handle_write s")
    case None
    then show ?thesis by (simp add: events_write_with_def events_write_def eq)
  next
    case (Some p)
    obtain r s1 where p: "p = (r, s1)" by (cases p)
    show ?thesis
      using manage_event_state_with_refines [of env s1]
      by (cases r; cases "manage_event_state_with env s1")
         (auto simp: events_write_with_def events_write_def eq Some p)
  qed
qed

lemma events_read_with_refines:
  "events_read_with env events write_only s = events_read events write_only s
   \<or> collaborator_raised_in env (events_read_with env events write_only s)"
proof (cases "collaborator_raised_in env (handle_read_with env s)")
  case True
  then show ?thesis
    by (cases "handle_read_with env s")
       (auto simp: events_read_with_def events_read_def split: result.splits)
next
  case False
  then have eq: "handle_read_with env s = handle_read s"
    using handle_read_with_refines [of env s] by blast
  show ?thesis by (simp add: events_read_with_def events_read_def eq)
qed

lemma events_bad_libc_with_refines:
  "events_bad_libc_with env events write_only s = events_bad_libc events write_only s
   \<or> collaborator_raised env (fst (events_bad_libc_with env events write_only s))"
  using handle_disconnect_with_refines
          [of env "logmsg ERROR_LEVEL ''BAD libc:  Write-Only but Read+Error. Assume socket disconnected.'' s"]
  by (auto simp: events_bad_libc_with_def events_bad_libc_def)

lemma events_error_with_refines:
  "events_error_with env events error s = events_error events error s
   \<or> collaborator_raised env (fst (events_error_with env events error s))"
  using handle_error_with_refines [of env error "logmsg ERROR_LEVEL ''Error event %r, %r'' s"]
  by (auto simp: events_error_with_def events_error_def)

lemma handle_events_with_refines:
  "handle_events_with env fd events error write_only s = handle_events fd events error write_only s
   \<or> collaborator_raised_in env (handle_events_with env fd events error write_only s)"
proof (cases "socket s = None")
  case True
  then show ?thesis by (simp add: handle_events_with_def handle_events_def)
next
  case open_s: False
  show ?thesis
  proof (cases "collaborator_raised_in env (events_write_with env events s)")
    case True
    then show ?thesis
      by (cases "events_write_with env events s")
         (auto simp: handle_events_with_def open_s split: result.splits)
  next
    case False
    then have w: "events_write_with env events s = events_write events s"
      using events_write_with_refines [of env events s] by blast
    show ?thesis
    proof (cases "events_write events s")
      case None
      then show ?thesis by (simp add: handle_events_with_def handle_events_def open_s w)
    next
      case (Some p1)
      obtain r1 s1 where p1: "p1 = (r1, s1)" by (cases p1)
      show ?thesis
      proof (cases r1)
        case (Raise x)
        then show ?thesis
          by (simp add: handle_events_with_def handle_events_def open_s w Some p1)
      next
        case ret1: (Return u1)
        show ?thesis
        proof (cases "collaborator_raised_in env (events_read_with env events write_only s1)")
          case True
          then show ?thesis
            by (cases "events_read_with env events write_only s1")
               (auto simp: handle_events_with_def open_s w Some p1 ret1 split: result.splits)
        next
          case False
          then have r: "events_read_with env events write_only s1
                          = events_read events write_only s1"
            using events_read_with_refines [of env events write_only s1] by blast
          show ?thesis
          proof (cases "events_read events write_only s1")
            case None
            then show ?thesis
              by (simp add: handle_events_with_def handle_events_def open_s w Some p1 ret1 r)
          next
            case some2: (Some p2)
            obtain r2 s2 where p2: "p2 = (r2, s2)" by (cases p2)
            show ?thesis
            proof (cases r2)
              case (Raise x)
              then show ?thesis
                by (simp add: handle_events_with_def handle_events_def open_s w Some p1 ret1
                      r some2 p2)
            next
              case ret2: (Return u2)
              show ?thesis
              proof (cases "collaborator_raised env
                              (fst (events_bad_libc_with env events write_only s2))")
                case True
                then show ?thesis
                  by (cases "events_bad_libc_with env events write_only s2")
                     (auto simp: handle_events_with_def open_s w Some p1 ret1 r some2 p2 ret2
                        split: result.splits)
              next
                case False
                then have b: "events_bad_libc_with env events write_only s2
                                = events_bad_libc events write_only s2"
                  using events_bad_libc_with_refines [of env events write_only s2] by blast
                obtain r3 s3 where p3: "events_bad_libc events write_only s2 = (r3, s3)"
                  by (cases "events_bad_libc events write_only s2")
                show ?thesis
                proof (cases r3)
                  case (Raise x)
                  then show ?thesis
                    by (simp add: handle_events_with_def handle_events_def open_s w Some p1 ret1
                          r some2 p2 ret2 b p3)
                next
                  case ret3: (Return u3)
                  show ?thesis
                    using events_error_with_refines [of env events error s3]
                    by (cases "events_error_with env events error s3")
                       (auto simp: handle_events_with_def handle_events_def open_s w Some p1 ret1
                          r some2 p2 ret2 b p3 ret3)
                qed
              qed
            qed
          qed
        qed
      qed
    qed
  qed
qed

text \<open>With collaborators that all return, the two event handlers are the same function.\<close>

lemma handle_events_with_quiet:
  "handle_events_with (\<lambda>c. None) fd events error write_only s
     = handle_events fd events error write_only s"
proof -
  have "\<not> collaborator_raised_in (\<lambda>c. None) p" for p :: "(unit result \<times> conn) option"
    by (cases p) (auto simp: collaborator_raised_in_def collaborator_raised_def raised_by_def
                    split: result.splits)
  then show ?thesis
    using handle_events_with_refines [of "\<lambda>c. None" fd events error write_only s] by blast
qed

text \<open>
  C10, as the code has it. With a reactor present and an error value that is \<^verbatim>\<open>None\<close> or an
  exception object, whatever the event bits, the state, the socket's answers and the
  collaborators' answers: an exception that leaves \<^verbatim>\<open>_handle_events\<close> or \<^verbatim>\<open>_handle_error\<close> is
  one of the three phase signals, or the \<^verbatim>\<open>socket.timeout\<close> that \<^verbatim>\<open>_handle_error\<close> raises for
  an error whose text contains \<^verbatim>\<open>timed out\<close>, or an exception raised by one of the
  collaborators that the handlers call unguarded: the protocol layer's
  \<^verbatim>\<open>_remove_heartbeat\<close>, \<^verbatim>\<open>_init_connection_state\<close>, \<^verbatim>\<open>_on_connection_closed\<close> and
  \<^verbatim>\<open>_on_data_available\<close>, the reactor's \<^verbatim>\<open>stop\<close> and \<^verbatim>\<open>update_handler\<close>, the socket's
  \<^verbatim>\<open>close\<close>.
\<close>

theorem handle_events_raises_only:
  assumes "ioloop s" and "error = NoneV \<or> error = ErrV e"
    and "handle_events_with env fd events error write_only s = Some (Raise x, s')
         \<or> handle_error_with env error s = (Raise x, s')"
  shows "x = IncompatibleProtocolError \<or> x = ProbableAuthenticationError
         \<or> x = ProbableAccessDeniedError \<or> x = OSErr (socket_timeout [])
         \<or> (\<exists>c. env c = Some x)"
proof -
  have ne: "\<forall>i. error \<noteq> IntV i" using assms(2) by auto
  from assms(3) have "signal x \<or> timeout_raised x \<or> raised_by env x"
  proof
    assume run: "handle_events_with env fd events error write_only s = Some (Raise x, s')"
    show ?thesis
    proof (cases "raised_by env x")
      case False
      then have "\<not> collaborator_raised_in env (handle_events_with env fd events error write_only s)"
        by (simp add: run)
      then have "handle_events fd events error write_only s = Some (Raise x, s')"
        using handle_events_with_refines [of env fd events error write_only s] run by simp
      from handle_events_outcome [OF this assms(1)] ne
      have "signal x \<or> timeout_raised x" by simp
      then show ?thesis by blast
    qed simp
  next
    assume run: "handle_error_with env error s = (Raise x, s')"
    show ?thesis
    proof (cases "raised_by env x")
      case False
      then have "handle_error error s = (Raise x, s')"
        using handle_error_with_refines [of env error s] run by simp
      then have "fst (handle_error error s) = Raise x" by simp
      then have "signal x \<or> timeout_raised x" using ne by (rule handle_error_raises)
      then show ?thesis by blast
    qed simp
  qed
  then show ?thesis
    by (auto simp: signal_def timeout_raised_def raised_by_def)
qed

theorem handle_events_raises_only_witness:
  "ioloop reading_conn
   \<and> handle_events_with frame_error_answers 7 READ NoneV False reading_conn =
       Some (Raise (OtherError ''InvalidFrameError''),
             reading_conn\<lparr>socket := Some (example_sock\<lparr>recv_script := []\<rparr>),
               trace := [SockRecv 7, OnDataAvailable [1, 2]]\<rparr>)
   \<and> (\<exists>c. frame_error_answers c = Some (OtherError ''InvalidFrameError''))"
proof -
  let ?s' = "reading_conn\<lparr>socket := Some (example_sock\<lparr>recv_script := []\<rparr>),
               trace := [SockRecv 7, OnDataAvailable [1, 2]]\<rparr>"
  have a: "ioloop reading_conn" by code_simp
  have b: "NoneV = NoneV \<or> NoneV = ErrV (OSError None [])" by simp
  have c: "handle_events_with frame_error_answers 7 READ NoneV False reading_conn =
             Some (Raise (OtherError ''InvalidFrameError''), ?s')"
    by code_simp
  from handle_events_raises_only [OF a b disjI1 [OF c]]
  have "\<exists>c. frame_error_answers c = Some (OtherError ''InvalidFrameError'')" by simp
  with a c show ?thesis by blast
qed

text \<open>
  The claim C10 as written fails for an error event that carries \<^verbatim>\<open>ETIMEDOUT\<close>, with
  collaborators that all return: the text of the error contains \<^verbatim>\<open>timed out\<close>, and
  \<^verbatim>\<open>socket.timeout\<close>, which is none of the three phase signals, is raised to the caller.
\<close>

theorem timed_out_error_counterexample:
  "handle_events 7 ERROR (ErrV (OSError (Some 110) ''[Errno 110] Connection timed out'')) False example_conn =
     Some (Raise (OSErr (socket_timeout [])),
           example_conn\<lparr>logs := [(ERROR_LEVEL, ''Error event %r, %r'')]\<rparr>)
   \<and> OSErr (socket_timeout []) \<noteq> IncompatibleProtocolError
   \<and> OSErr (socket_timeout []) \<noteq> ProbableAuthenticationError
   \<and> OSErr (socket_timeout []) \<noteq> ProbableAccessDeniedError"
  by code_simp

section \<open>Dialling the candidates\<close>

lemma connect_error_text_nonempty: "connect_error_text a e \<noteq> []"
  by (simp add: connect_error_text_def connect_timeout_text_def connect_failed_text_def)

lemma failed_attempt:
  assumes "new_sockets s = k # ks" and "connect_answer k = ConnectRaises e"
  shows "\<exists>s1. create_and_connect_to_socket a s = Some (Return (Some (connect_error_text a e)), s1)
           \<and> socket s1 = Some (k\<lparr>blocking := True\<rparr>)
           \<and> new_sockets s1 = ks
           \<and> params_ssl s1 = params_ssl s
           \<and> trace s1 = trace s @ attempt_calls (params_ssl s) a k"
  using assms
  by (simp add: create_and_connect_to_socket_def Let_def connect_error_text_def
      attempt_calls_def emit_def logmsg_def)

lemma handshake_done_first:
  assumes "socket s = Some k" and "handshake_script k = HandshakeDone # hs"
  shows "do_ssl_handshake s =
           Some (Return (),
                 emit (SockDoHandshake (fileno k))
                   (s\<lparr>socket := Some (k\<lparr>handshake_script := hs\<rparr>)\<rparr>))"
  using assms
  by (simp add: do_ssl_handshake_def DO_HANDSHAKE_def handshake_loop.simps [of s])

lemma successful_attempt:
  assumes "new_sockets s = k # ks" and "connect_answer k = Connected"
    and "params_ssl s \<longrightarrow> handshake_script k = HandshakeDone # hs"
  shows "\<exists>s1. create_and_connect_to_socket a s = Some (Return None, s1)
           \<and> socket s1 =
               Some (if params_ssl s then k\<lparr>blocking := True, handshake_script := hs\<rparr>
                     else k\<lparr>blocking := True\<rparr>)
           \<and> new_sockets s1 = ks
           \<and> params_ssl s1 = params_ssl s
           \<and> trace s1 = trace s @ attempt_calls (params_ssl s) a k
                @ (if params_ssl s then [SockDoHandshake (fileno k)] else [])"
proof (cases "params_ssl s")
  case False
  then show ?thesis
    using assms
    by (simp add: create_and_connect_to_socket_def Let_def attempt_calls_def emit_def
        logmsg_def)
next
  case True
  let ?k = "k\<lparr>blocking := True\<rparr>"
  let ?s4 = "emit (SockConnect (fileno ?k) (host a) (port a))
              (logmsg INFO ''Connecting to %s:%s%s''
                (emit (WrapSocket (fileno ?k))
                  (s\<lparr>socket := Some ?k, new_sockets := ks,
                     trace := trace s @ [SockCreate (fileno ?k) (family a),
                                         SockSetNoDelay (fileno ?k), SockSetTimeout (fileno ?k)]\<rparr>)))"
  have sk: "socket ?s4 = Some ?k" by (simp add: emit_def logmsg_def)
  have hs: "handshake_script ?k = HandshakeDone # hs" using assms(3) True by simp
  have ssl4: "params_ssl ?s4" using True by (simp add: emit_def logmsg_def)
  have "create_and_connect_to_socket a s =
          (case do_ssl_handshake ?s4 of
             None \<Rightarrow> None
           | Some (Raise (OSErr e), s5) \<Rightarrow>
               if is_SSLError e then
                 Some (Return (Some (ssl_failed_text a e)),
                       logmsg ERROR_LEVEL (ssl_failed_text a e) s5)
               else Some (Raise (OSErr e), s5)
           | Some (Raise x, s5) \<Rightarrow> Some (Raise x, s5)
           | Some (Return _, s5) \<Rightarrow> Some (Return None, s5))"
    using assms(1,2) True
    by (simp add: create_and_connect_to_socket_def Let_def DO_HANDSHAKE_def emit_def logmsg_def)
  then show ?thesis
    using handshake_done_first [OF sk hs] True
    by (simp add: attempt_calls_def emit_def logmsg_def)
qed

lemma failed_prefix:
  assumes "length ks = length pre" and "map connect_answer ks = map ConnectRaises es"
    and "new_sockets s = ks @ rest"
  shows "\<exists>s1. connect_loop err (pre @ post) s =
                connect_loop
                  (if pre = [] then err
                   else ErrorText (connect_error_text (last pre) (last es)))
                  post s1
           \<and> socket s1 = (if pre = [] then socket s else None)
           \<and> new_sockets s1 = rest
           \<and> params_ssl s1 = params_ssl s
           \<and> trace s1 =
               trace s @ concat (map2 (failed_attempt_calls (params_ssl s)) pre ks)"
  using assms
proof (induction pre arbitrary: ks es s err)
  case Nil
  then have "connect_loop err ([] @ post) s = connect_loop err post s
           \<and> socket s = socket s \<and> new_sockets s = rest \<and> params_ssl s = params_ssl s
           \<and> trace s = trace s @ concat (map2 (failed_attempt_calls (params_ssl s)) [] ks)"
    by simp
  then show ?case by auto
next
  case (Cons a pre)
  from Cons.prems(1) obtain k ks' where ks: "ks = k # ks'" "length ks' = length pre"
    by (cases ks) auto
  from Cons.prems(2) ks obtain e es' where
    es: "es = e # es'" "connect_answer k = ConnectRaises e"
        "map connect_answer ks' = map ConnectRaises es'"
    by (cases es) auto
  have ns: "new_sockets s = k # (ks' @ rest)"
    using Cons.prems(3) ks by simp
  from failed_attempt [OF ns es(2), of a]
  obtain s1 where s1:
    "create_and_connect_to_socket a s = Some (Return (Some (connect_error_text a e)), s1)"
    "socket s1 = Some (k\<lparr>blocking := True\<rparr>)"
    "new_sockets s1 = ks' @ rest"
    "params_ssl s1 = params_ssl s"
    "trace s1 = trace s @ attempt_calls (params_ssl s) a k"
    by blast
  let ?s2 = "cleanup_socket s1"
  have step: "connect_loop err ((a # pre) @ post) s =
              connect_loop (ErrorText (connect_error_text a e)) (pre @ post) ?s2"
    using s1(1) connect_error_text_nonempty [of a e] by simp
  have s2: "new_sockets ?s2 = ks' @ rest" "params_ssl ?s2 = params_ssl s"
    "socket ?s2 = None"
    "trace ?s2 = trace s @ failed_attempt_calls (params_ssl s) a k"
    using s1 by (simp_all add: failed_attempt_calls_def)
  from Cons.IH [OF ks(2) es(3) s2(1), of "ErrorText (connect_error_text a e)"]
  obtain s3 where s3:
    "connect_loop (ErrorText (connect_error_text a e)) (pre @ post) ?s2 =
       connect_loop
         (if pre = [] then ErrorText (connect_error_text a e)
          else ErrorText (connect_error_text (last pre) (last es')))
         post s3"
    "socket s3 = (if pre = [] then socket ?s2 else None)"
    "new_sockets s3 = rest"
    "params_ssl s3 = params_ssl ?s2"
    "trace s3 = trace ?s2 @ concat (map2 (failed_attempt_calls (params_ssl ?s2)) pre ks')"
    by blast
  have "length es' = length pre"
    using es(3) ks(2) map_eq_imp_length_eq by fastforce
  then have le: "es' = [] \<longleftrightarrow> pre = []"
    by auto
  have "(if pre = [] then ErrorText (connect_error_text a e)
         else ErrorText (connect_error_text (last pre) (last es'))) =
        ErrorText (connect_error_text (last (a # pre)) (last es))"
    using es(1) le by simp
  then have "connect_loop err ((a # pre) @ post) s =
          connect_loop (ErrorText (connect_error_text (last (a # pre)) (last es))) post s3"
    using step s3(1) by simp
  moreover have "socket s3 = None" using s3(2) s2(3) by simp
  moreover have "trace s3 =
      trace s @ concat (map2 (failed_attempt_calls (params_ssl s)) (a # pre) ks)"
    using s3(5) s2 ks(1) by simp
  ultimately show ?case
    using s3(3,4) s2(2) by auto
qed

lemma getaddrinfo_retry_eintr:
  "\<forall>e\<in>set gs. errno e = Some EINTR \<Longrightarrow>
   getaddrinfo_retry (map GetaddrinfoRaises gs @ script) = getaddrinfo_retry script"
  by (induction gs) simp_all

lemma connected_fields:
  assumes "socket s = Some k"
  shows "connected s =
           Some (Return None,
                 emit (SockSetBlocking (fileno k) False)
                   (s\<lparr>socket := Some (k\<lparr>blocking := False\<rparr>)\<rparr>))"
  using assms by (simp add: connected_def set_nonblocking_def)

text \<open>
  The candidates that fail in \<^verbatim>\<open>connect\<close>. Resolution, after any number of interrupted
  attempts, gives the candidates
  \<open>pre @ post\<close>, and \<^verbatim>\<open>connect\<close> raises on the sockets created for the candidates of \<open>pre\<close>.
  These are tried from left to right, each on its own new socket, which is shut down and
  closed before the next is created. If there is no further candidate, the dial returns the
  text of the last failed candidate, or the no-addresses text when there was no candidate at
  all, with no socket left. If the next candidate connects (under TLS, with a handshake that
  completes at once), the dial returns \<^verbatim>\<open>None\<close> with that socket set non-blocking, and
  nothing is created for the candidates after it.
\<close>

lemma adapter_connect_candidates:
  assumes "\<forall>e\<in>set gs. errno e = Some EINTR"
    and "getaddrinfo_script s = map GetaddrinfoRaises gs @ Addresses (pre @ post) # later"
    and "length ks = length pre"
    and "map connect_answer ks = map ConnectRaises es"
    and "new_sockets s = ks @ rest"
  shows "(post = [] \<longrightarrow>
            (\<exists>s'. adapter_connect s =
                    Some (Return (Some (if pre = [] then ErrorText ''No socket addresses available''
                                        else ErrorText (connect_error_text (last pre) (last es)))),
                          s')
                \<and> socket s' = (if pre = [] then socket s else None)
                \<and> new_sockets s' = rest
                \<and> trace s' =
                    trace s @ concat (map2 (failed_attempt_calls (params_ssl s)) pre ks)))
         \<and> (post = a # post' \<and> rest = k # rest' \<and> connect_answer k = Connected
              \<and> (params_ssl s \<longrightarrow> handshake_script k = HandshakeDone # hs) \<longrightarrow>
            (\<exists>s'. adapter_connect s = Some (Return None, s')
                \<and> socket s' =
                    Some (if params_ssl s then k\<lparr>blocking := False, handshake_script := hs\<rparr>
                          else k\<lparr>blocking := False\<rparr>)
                \<and> new_sockets s' = rest'
                \<and> trace s' =
                    trace s @ concat (map2 (failed_attempt_calls (params_ssl s)) pre ks)
                    @ attempt_calls (params_ssl s) a k
                    @ (if params_ssl s then [SockDoHandshake (fileno k)] else [])
                    @ [SockSetBlocking (fileno k) False]))"
proof -
  let ?s0 = "s\<lparr>getaddrinfo_script := later\<rparr>"
  let ?no = "ErrorText ''No socket addresses available''"
  have ac: "adapter_connect s = connect_loop ?no (pre @ post) ?s0"
    using assms(1,2) by (simp add: adapter_connect_def getaddrinfo_retry_eintr)
  have ns: "new_sockets ?s0 = ks @ rest" using assms(5) by simp
  from failed_prefix [OF assms(3,4) ns, of ?no post]
  obtain s1 where s1:
    "connect_loop ?no (pre @ post) ?s0 =
       connect_loop (if pre = [] then ?no
                     else ErrorText (connect_error_text (last pre) (last es))) post s1"
    "socket s1 = (if pre = [] then socket s else None)"
    "new_sockets s1 = rest"
    "params_ssl s1 = params_ssl s"
    "trace s1 = trace s @ concat (map2 (failed_attempt_calls (params_ssl s)) pre ks)"
    by auto
  have fail: "post = [] \<longrightarrow>
            (\<exists>s'. adapter_connect s =
                    Some (Return (Some (if pre = [] then ?no
                                        else ErrorText (connect_error_text (last pre) (last es)))),
                          s')
                \<and> socket s' = (if pre = [] then socket s else None)
                \<and> new_sockets s' = rest
                \<and> trace s' =
                    trace s @ concat (map2 (failed_attempt_calls (params_ssl s)) pre ks))"
    using ac s1 by auto
  have ok: "post = a # post' \<and> rest = k # rest' \<and> connect_answer k = Connected
              \<and> (params_ssl s \<longrightarrow> handshake_script k = HandshakeDone # hs) \<longrightarrow>
            (\<exists>s'. adapter_connect s = Some (Return None, s')
                \<and> socket s' =
                    Some (if params_ssl s then k\<lparr>blocking := False, handshake_script := hs\<rparr>
                          else k\<lparr>blocking := False\<rparr>)
                \<and> new_sockets s' = rest'
                \<and> trace s' =
                    trace s @ concat (map2 (failed_attempt_calls (params_ssl s)) pre ks)
                    @ attempt_calls (params_ssl s) a k
                    @ (if params_ssl s then [SockDoHandshake (fileno k)] else [])
                    @ [SockSetBlocking (fileno k) False])"
  proof
    assume h: "post = a # post' \<and> rest = k # rest' \<and> connect_answer k = Connected
              \<and> (params_ssl s \<longrightarrow> handshake_script k = HandshakeDone # hs)"
    let ?err = "if pre = [] then ?no
                else ErrorText (connect_error_text (last pre) (last es))"
    let ?k1 = "if params_ssl s then k\<lparr>blocking := True, handshake_script := hs\<rparr>
               else k\<lparr>blocking := True\<rparr>"
    have n1: "new_sockets s1 = k # rest'" using s1(3) h by simp
    have c1: "connect_answer k = Connected" using h by simp
    have h1: "params_ssl s1 \<longrightarrow> handshake_script k = HandshakeDone # hs"
      using s1(4) h by simp
    from successful_attempt [OF n1 c1 h1, of a]
    obtain s2 where s2:
      "create_and_connect_to_socket a s1 = Some (Return None, s2)"
      "socket s2 = Some ?k1"
      "new_sockets s2 = rest'"
      "trace s2 = trace s1 @ attempt_calls (params_ssl s) a k
                  @ (if params_ssl s then [SockDoHandshake (fileno k)] else [])"
      using s1(4) by auto
    let ?s3 = "emit (SockSetBlocking (fileno ?k1) False)
                 (s2\<lparr>socket := Some (?k1\<lparr>blocking := False\<rparr>)\<rparr>)"
    have "connect_loop ?err post s1 = connected s2"
      using h s2(1) by simp
    then have "adapter_connect s = Some (Return None, ?s3)"
      using ac s1(1) connected_fields [OF s2(2)] by simp
    moreover have "socket ?s3 =
        Some (if params_ssl s then k\<lparr>blocking := False, handshake_script := hs\<rparr>
              else k\<lparr>blocking := False\<rparr>)"
      by (simp add: emit_def)
    moreover have "new_sockets ?s3 = rest'"
      using s2(3) by (simp add: emit_def)
    moreover have "trace ?s3 =
        trace s @ concat (map2 (failed_attempt_calls (params_ssl s)) pre ks)
        @ attempt_calls (params_ssl s) a k
        @ (if params_ssl s then [SockDoHandshake (fileno k)] else [])
        @ [SockSetBlocking (fileno k) False]"
      using s2(4) s1(5) by (simp add: emit_def)
    ultimately show "\<exists>s'. adapter_connect s = Some (Return None, s')
                \<and> socket s' =
                    Some (if params_ssl s then k\<lparr>blocking := False, handshake_script := hs\<rparr>
                          else k\<lparr>blocking := False\<rparr>)
                \<and> new_sockets s' = rest'
                \<and> trace s' =
                    trace s @ concat (map2 (failed_attempt_calls (params_ssl s)) pre ks)
                    @ attempt_calls (params_ssl s) a k
                    @ (if params_ssl s then [SockDoHandshake (fileno k)] else [])
                    @ [SockSetBlocking (fileno k) False]"
      by blast
  qed
  from fail ok show ?thesis by blast
qed

lemma adapter_connect_candidates_example:
  "adapter_connect dial_conn =
     Some (Return None,
           dial_conn\<lparr>socket := Some (accepting_sock\<lparr>blocking := False\<rparr>),
             getaddrinfo_script := [], new_sockets := [],
             trace := [SockCreate 8 10, SockSetNoDelay 8, SockSetTimeout 8,
                       SockConnect 8 ''::1'' 5672, SockShutdown 8, SockClose 8,
                       SockCreate 9 2, SockSetNoDelay 9, SockSetTimeout 9,
                       SockConnect 9 ''10.0.0.1'' 5672, SockShutdown 9, SockClose 9,
                       SockCreate 10 2, SockSetNoDelay 10, SockSetTimeout 10,
                       SockConnect 10 ''10.0.0.2'' 5672, SockSetBlocking 10 False],
             logs := [(INFO, ''Connecting to %s:%s%s''),
                      (ERROR_LEVEL, ''Connection to ::1:5672 failed: timeout''),
                      (INFO, ''Connecting to %s:%s%s''),
                      (WARNING, ''Connection to 10.0.0.1:5672 failed: [Errno 111] Connection refused''),
                      (INFO, ''Connecting to %s:%s%s'')]\<rparr>)
   \<and> adapter_connect failing_dial_conn =
     Some (Return (Some (ErrorText
             ''Connection to 10.0.0.1:5672 failed: [Errno 111] Connection refused'')),
           failing_dial_conn\<lparr>getaddrinfo_script := [], new_sockets := [accepting_sock],
             trace := [SockCreate 8 10, SockSetNoDelay 8, SockSetTimeout 8,
                       SockConnect 8 ''::1'' 5672, SockShutdown 8, SockClose 8,
                       SockCreate 9 2, SockSetNoDelay 9, SockSetTimeout 9,
                       SockConnect 9 ''10.0.0.1'' 5672, SockShutdown 9, SockClose 9],
             logs := [(INFO, ''Connecting to %s:%s%s''),
                      (ERROR_LEVEL, ''Connection to ::1:5672 failed: timeout''),
                      (INFO, ''Connecting to %s:%s%s''),
                      (WARNING, ''Connection to 10.0.0.1:5672 failed: [Errno 111] Connection refused'')]\<rparr>)"
proof -
  let ?es = "[socket_timeout ''timed out'',
              OSError (Some 111) ''[Errno 111] Connection refused'']"
  let ?ks = "[timing_out_sock, refused_sock]"
  have e1: "adapter_connect dial_conn =
     Some (Return None,
           dial_conn\<lparr>socket := Some (accepting_sock\<lparr>blocking := False\<rparr>),
             getaddrinfo_script := [], new_sockets := [],
             trace := [SockCreate 8 10, SockSetNoDelay 8, SockSetTimeout 8,
                       SockConnect 8 ''::1'' 5672, SockShutdown 8, SockClose 8,
                       SockCreate 9 2, SockSetNoDelay 9, SockSetTimeout 9,
                       SockConnect 9 ''10.0.0.1'' 5672, SockShutdown 9, SockClose 9,
                       SockCreate 10 2, SockSetNoDelay 10, SockSetTimeout 10,
                       SockConnect 10 ''10.0.0.2'' 5672, SockSetBlocking 10 False],
             logs := [(INFO, ''Connecting to %s:%s%s''),
                      (ERROR_LEVEL, ''Connection to ::1:5672 failed: timeout''),
                      (INFO, ''Connecting to %s:%s%s''),
                      (WARNING, ''Connection to 10.0.0.1:5672 failed: [Errno 111] Connection refused''),
                      (INFO, ''Connecting to %s:%s%s'')]\<rparr>)"
    by code_simp
  have e2: "adapter_connect failing_dial_conn =
     Some (Return (Some (ErrorText
             ''Connection to 10.0.0.1:5672 failed: [Errno 111] Connection refused'')),
           failing_dial_conn\<lparr>getaddrinfo_script := [], new_sockets := [accepting_sock],
             trace := [SockCreate 8 10, SockSetNoDelay 8, SockSetTimeout 8,
                       SockConnect 8 ''::1'' 5672, SockShutdown 8, SockClose 8,
                       SockCreate 9 2, SockSetNoDelay 9, SockSetTimeout 9,
                       SockConnect 9 ''10.0.0.1'' 5672, SockShutdown 9, SockClose 9],
             logs := [(INFO, ''Connecting to %s:%s%s''),
                      (ERROR_LEVEL, ''Connection to ::1:5672 failed: timeout''),
                      (INFO, ''Connecting to %s:%s%s''),
                      (WARNING, ''Connection to 10.0.0.1:5672 failed: [Errno 111] Connection refused'')]\<rparr>)"
    by code_simp
  have g1: "\<forall>e\<in>set [OSError (Some 4) ''[Errno 4] Interrupted system call'']. errno e = Some EINTR"
    by (simp add: EINTR_def)
  have g2: "getaddrinfo_script dial_conn =
              map GetaddrinfoRaises [OSError (Some 4) ''[Errno 4] Interrupted system call'']
              @ Addresses ([address1, address2] @ [address3]) # []"
    by code_simp
  have l: "length ?ks = length [address1, address2]" by simp
  have c: "map connect_answer ?ks = map ConnectRaises ?es" by code_simp
  have n1: "new_sockets dial_conn = ?ks @ [accepting_sock]" by code_simp
  have ok: "[address3] = address3 # [] \<and> [accepting_sock] = accepting_sock # []
            \<and> connect_answer accepting_sock = Connected
            \<and> (params_ssl dial_conn \<longrightarrow> handshake_script accepting_sock = HandshakeDone # [])"
    by code_simp
  note t1 = adapter_connect_candidates [OF g1 g2 l c n1,
      where a = address3 and post' = "[]" and k = accepting_sock and rest' = "[]" and hs = "[]"]
  have x1: "\<exists>s'. adapter_connect dial_conn = Some (Return None, s')"
    using mp [OF conjunct2 [OF t1] ok] by blast
  have h1: "\<forall>e\<in>set ([] :: oserror list). errno e = Some EINTR" by simp
  have h2: "getaddrinfo_script failing_dial_conn =
              map GetaddrinfoRaises [] @ Addresses ([address1, address2] @ []) # []"
    by code_simp
  have n2: "new_sockets failing_dial_conn = ?ks @ [accepting_sock]" by code_simp
  note t2 = adapter_connect_candidates [OF h1 h2 l c n2]
  have x2: "\<exists>s' :: conn. socket s' = (if [address1, address2] = [] then socket failing_dial_conn else None)"
    using mp [OF conjunct1 [OF t2] refl] by blast
  from x1 x2 e1 e2 show ?thesis by (intro conjI)
qed


end
